theory Spec2Isabelle
  imports Complex_Main
begin

section \<open>Python values handled by photo\_mapper\<close>

text \<open>
  The functions of \<^verbatim>\<open>photo_mapper.py\<close> are dynamically typed: they receive whatever the
  EXIF libraries deliver. The values that occur are modelled by one datatype. A dictionary
  is an association list in insertion order; its keys are integers (EXIF tag numbers) or
  text (tag names, the sentinel key of \<^verbatim>\<open>get_exif_any\<close>). \<open>PObj n d\<close> is a rational object,
  Pillow's \<^verbatim>\<open>IFDRational\<close> or a \<^verbatim>\<open>fractions.Fraction\<close>, with the integer attributes
  \<^verbatim>\<open>numerator\<close> = \<open>n\<close> and \<^verbatim>\<open>denominator\<close> = \<open>d\<close>; an \<^verbatim>\<open>IFDRational\<close> may have the
  denominator 0. Such an object converts with \<^verbatim>\<open>float()\<close> to \<open>n / d\<close>, is false exactly when
  it is zero, and equals 1 exactly when \<open>n = d \<noteq> 0\<close>.

  Python floats are modelled by real numbers: every exception that a float operation can
  raise is a branch of the model (\<open>ZeroDivisionError\<close>, \<open>OverflowError\<close> of
  \<^verbatim>\<open>float(int)\<close>, \<open>ValueError\<close> and \<open>TypeError\<close> of \<^verbatim>\<open>float(x)\<close>), the rounding of
  binary64 and the values \<^verbatim>\<open>inf\<close> and \<^verbatim>\<open>nan\<close> are not.
\<close>

datatype key = KInt int | KStr string

datatype pyval =
    PNone
  | PInt int
  | PFloat real
  | PStr string
  | PBytes string
  | PTuple "pyval list"
  | PList "pyval list"
  | PDict "(key \<times> pyval) list"
  | PObj int int

datatype error =
    TypeError
  | ValueError
  | OverflowError
  | ZeroDivisionError
  | IndexError
  | KeyError
  | AttributeError
  | LibraryError string

text \<open>
  What the program takes from its surroundings: the optional libraries found at import
  time (lines 15-29), the parser \<^verbatim>\<open>piexif.load\<close> (reduced to the \<^verbatim>\<open>"GPS"\<close> entry of its
  result, the only one read), Python's reading of a numeral from text in \<^verbatim>\<open>float(s)\<close>,
  the text of a float in an f-string, the text of an exception in an f-string, and what
  \<^verbatim>\<open>float()\<close> gives on a rational object with numerator \<open>n\<close> and denominator 0 (an
  exception or, in other releases of the library, \<^verbatim>\<open>nan\<close>, which the model does not hold).
\<close>

record env =
  have_pillow_heif :: bool
  have_piexif :: bool
  piexif_load :: "pyval \<Rightarrow> error + (key \<times> pyval) list"
  float_of_text :: "string \<Rightarrow> real option"
  float_text :: "real \<Rightarrow> string"
  error_text :: "error \<Rightarrow> string"
  float_of_zero_den :: "int \<Rightarrow> error + real"

fun truthy :: "pyval \<Rightarrow> bool" where
  "truthy PNone = False"
| "truthy (PInt n) = (n \<noteq> 0)"
| "truthy (PFloat r) = (r \<noteq> 0)"
| "truthy (PStr s) = (s \<noteq> [])"
| "truthy (PBytes b) = (b \<noteq> [])"
| "truthy (PTuple xs) = (xs \<noteq> [])"
| "truthy (PList xs) = (xs \<noteq> [])"
| "truthy (PDict kvs) = (kvs \<noteq> [])"
| "truthy (PObj n d) = (n \<noteq> 0 \<or> d = 0)"

fun py_len :: "pyval \<Rightarrow> error + nat" where
  "py_len (PStr s) = Inr (length s)"
| "py_len (PBytes b) = Inr (length b)"
| "py_len (PTuple xs) = Inr (length xs)"
| "py_len (PList xs) = Inr (length xs)"
| "py_len (PDict kvs) = Inr (length (remdups (map fst kvs)))"
| "py_len x = Inl TypeError"

text \<open>
  \<^verbatim>\<open>d.get(k)\<close> on a dictionary given by its insertions in order: a later insertion
  under the same key replaces the earlier one.
\<close>

definition dict_get :: "(key \<times> pyval) list \<Rightarrow> key \<Rightarrow> pyval option" where
  "dict_get kvs k = map_of (rev kvs) k"

text \<open>\<^verbatim>\<open>x[i]\<close> for a literal index \<open>i \<ge> 0\<close>.\<close>

fun py_getitem :: "pyval \<Rightarrow> nat \<Rightarrow> error + pyval" where
  "py_getitem (PTuple xs) i = (if i < length xs then Inr (xs ! i) else Inl IndexError)"
| "py_getitem (PList xs) i = (if i < length xs then Inr (xs ! i) else Inl IndexError)"
| "py_getitem (PStr s) i = (if i < length s then Inr (PStr [s ! i]) else Inl IndexError)"
| "py_getitem (PBytes b) i =
     (if i < length b then Inr (PInt (of_char (b ! i))) else Inl IndexError)"
| "py_getitem (PDict kvs) i =
     (case dict_get kvs (KInt (int i)) of None \<Rightarrow> Inl KeyError | Some v \<Rightarrow> Inr v)"
| "py_getitem x i = Inl TypeError"

text \<open>
  \<^verbatim>\<open>float(x)\<close>. An integer that rounds to \<open>2 ^ 1024\<close> or beyond raises \<open>OverflowError\<close>;
  text and bytes are read as a numeral or raise \<open>ValueError\<close>; a rational object gives
  the quotient of its two integers, with the same \<open>OverflowError\<close>; everything else in
  the model has no conversion to float.
\<close>

definition float_int_limit :: int where
  "float_int_limit = 2 ^ 1024 - 2 ^ 970"

fun py_float :: "env \<Rightarrow> pyval \<Rightarrow> error + real" where
  "py_float E (PInt n) =
     (if \<bar>n\<bar> < float_int_limit then Inr (of_int n) else Inl OverflowError)"
| "py_float E (PFloat r) = Inr r"
| "py_float E (PStr s) =
     (case float_of_text E s of None \<Rightarrow> Inl ValueError | Some r \<Rightarrow> Inr r)"
| "py_float E (PBytes b) =
     (case float_of_text E b of None \<Rightarrow> Inl ValueError | Some r \<Rightarrow> Inr r)"
| "py_float E (PObj n d) =
     (if d = 0 then float_of_zero_den E n
      else if \<bar>of_int n / of_int d :: real\<bar> < of_int float_int_limit
        then Inr (of_int n / of_int d)
        else Inl OverflowError)"
| "py_float E x = Inl TypeError"

text \<open>\<^verbatim>\<open>a / b\<close> on two floats, after both operands have been evaluated left to right.\<close>

fun float_div :: "error + real \<Rightarrow> error + real \<Rightarrow> error + real" where
  "float_div (Inl e) b = Inl e"
| "float_div (Inr x) (Inl e) = Inl e"
| "float_div (Inr x) (Inr y) = (if y = 0 then Inl ZeroDivisionError else Inr (x / y))"

text \<open>A \<^verbatim>\<open>try: ... except Exception: return None\<close> around a computation.\<close>

fun except_none :: "error + 'a option \<Rightarrow> 'a option" where
  "except_none (Inl e) = None"
| "except_none (Inr r) = r"

section \<open>Rational Converter (lines 37-46)\<close>

text \<open>
  \<^verbatim>\<open>float(num) / float(den) if den else float(num)\<close>, the expression of lines 40 and 43.
\<close>

definition ratio :: "env \<Rightarrow> pyval \<Rightarrow> pyval \<Rightarrow> error + real" where
  "ratio E num den =
     (if truthy den then float_div (py_float E num) (py_float E den) else py_float E num)"

text \<open>
  The body of the \<^verbatim>\<open>try\<close>. Python integers have the attributes \<^verbatim>\<open>numerator\<close> (the
  integer itself) and \<^verbatim>\<open>denominator\<close> (1), so they take the first branch, as a
  rational object does; a tuple of length 2 takes the second; everything else goes to
  \<^verbatim>\<open>float(x)\<close>.
\<close>

fun rational_to_float_try :: "env \<Rightarrow> pyval \<Rightarrow> error + real" where
  "rational_to_float_try E (PInt n) = ratio E (PInt n) (PInt 1)"
| "rational_to_float_try E (PObj n d) = ratio E (PInt n) (PInt d)"
| "rational_to_float_try E (PTuple [num, den]) = ratio E num den"
| "rational_to_float_try E x = py_float E x"

definition rational_to_float :: "env \<Rightarrow> pyval \<Rightarrow> real option" where
  "rational_to_float E x =
     (case rational_to_float_try E x of Inl e \<Rightarrow> None | Inr r \<Rightarrow> Some r)"

section \<open>DMS-to-Decimal Converter (lines 48-62)\<close>

text \<open>Sequencing of two steps of which the first may raise.\<close>

fun and_then :: "error + 'a \<Rightarrow> ('a \<Rightarrow> error + 'b) \<Rightarrow> error + 'b" where
  "and_then (Inl e) f = Inl e"
| "and_then (Inr x) f = f x"

text \<open>Lines 55-60: the three converted components, the sum and the sign.\<close>

fun dms_sum :: "real option \<Rightarrow> real option \<Rightarrow> real option \<Rightarrow> pyval \<Rightarrow> real option" where
  "dms_sum (Some d) (Some m) (Some s) ref =
     (let deg = d + (m / 60) + (s / 3600)
      in Some (if ref = PStr ''S'' \<or> ref = PStr ''W'' then - deg else deg))"
| "dms_sum d m s ref = None"

definition dms_to_deg_try :: "env \<Rightarrow> pyval \<Rightarrow> pyval \<Rightarrow> error + real option" where
  "dms_to_deg_try E dms ref =
     (if \<not> truthy dms then Inr None
      else and_then (py_len dms) (\<lambda>n.
        if n \<noteq> 3 then Inr None
        else and_then (py_getitem dms 0) (\<lambda>x0.
             and_then (py_getitem dms 1) (\<lambda>x1.
             and_then (py_getitem dms 2) (\<lambda>x2.
               Inr (dms_sum (rational_to_float E x0) (rational_to_float E x1)
                      (rational_to_float E x2) ref))))))"

definition dms_to_deg :: "env \<Rightarrow> pyval \<Rightarrow> pyval \<Rightarrow> real option" where
  "dms_to_deg E dms ref = except_none (dms_to_deg_try E dms ref)"

section \<open>Tag tables (lines 31-35)\<close>

text \<open>
  \<^verbatim>\<open>ExifTags.GPSTAGS\<close> is Pillow's table of the GPS tags of the EXIF standard, from tag
  number to tag name. Line 35 builds \<^verbatim>\<open>GPSTAGS\<close> from it with key and value exchanged
  (\<^verbatim>\<open>{v: k for k, v in ExifTags.GPSTAGS.items()}\<close>): a table from name to number.
\<close>

definition ExifTags_GPSTAGS :: "(int \<times> string) list" where
  "ExifTags_GPSTAGS =
    [(0, ''GPSVersionID''), (1, ''GPSLatitudeRef''), (2, ''GPSLatitude''),
     (3, ''GPSLongitudeRef''), (4, ''GPSLongitude''), (5, ''GPSAltitudeRef''),
     (6, ''GPSAltitude''), (7, ''GPSTimeStamp''), (8, ''GPSSatellites''),
     (9, ''GPSStatus''), (10, ''GPSMeasureMode''), (11, ''GPSDOP''),
     (12, ''GPSSpeedRef''), (13, ''GPSSpeed''), (14, ''GPSTrackRef''),
     (15, ''GPSTrack''), (16, ''GPSImgDirectionRef''), (17, ''GPSImgDirection''),
     (18, ''GPSMapDatum''), (19, ''GPSDestLatitudeRef''), (20, ''GPSDestLatitude''),
     (21, ''GPSDestLongitudeRef''), (22, ''GPSDestLongitude''),
     (23, ''GPSDestBearingRef''), (24, ''GPSDestBearing''),
     (25, ''GPSDestDistanceRef''), (26, ''GPSDestDistance''),
     (27, ''GPSProcessingMethod''), (28, ''GPSAreaInformation''),
     (29, ''GPSDateStamp''), (30, ''GPSDifferential''), (31, ''GPSHPositioningError'')]"

definition GPSTAGS :: "(string \<times> int) list" where
  "GPSTAGS = map (\<lambda>(k, v). (v, k)) ExifTags_GPSTAGS"

text \<open>
  \<^verbatim>\<open>GPSTAGS.get(k, k)\<close>. The keys of \<^verbatim>\<open>GPSTAGS\<close> are names, so a number is never found
  and comes back as it is; a name that is found comes back as its number.
\<close>

fun GPSTAGS_get :: "key \<Rightarrow> key" where
  "GPSTAGS_get (KInt i) = KInt i"
| "GPSTAGS_get (KStr s) = (case map_of (rev GPSTAGS) s of None \<Rightarrow> KStr s | Some i \<Rightarrow> KInt i)"

text \<open>
  \<^verbatim>\<open>TAGS.get("GPSInfo")\<close>: Pillow's \<^verbatim>\<open>ExifTags.TAGS\<close> gives the name \<^verbatim>\<open>GPSInfo\<close> to the
  number 34853 (0x8825) and to no other, so the exchanged table of line 34 yields 34853.
\<close>

definition TAGS_get_GPSInfo :: "int option" where
  "TAGS_get_GPSInfo = Some 34853"

definition IMG_EXTS :: "string list" where
  "IMG_EXTS = [''.jpg'', ''.jpeg'', ''.tif'', ''.tiff'', ''.heic'', ''.heif'']"

section \<open>GPS extraction\<close>

type_synonym gps = "real \<times> real \<times> real option"

text \<open>
  \<^verbatim>\<open>ref == 1\<close>: an integer or a float equal to one, or a rational object with equal
  nonzero numerator and denominator; no other value of the model is.
\<close>

fun equals_one :: "pyval \<Rightarrow> bool" where
  "equals_one (PInt n) = (n = 1)"
| "equals_one (PFloat r) = (r = 1)"
| "equals_one (PObj n d) = (d \<noteq> 0 \<and> n = d)"
| "equals_one x = False"

text \<open>
  The altitude statements, lines 77-82 and again lines 100-105 with the keys of the
  other dictionary: \<open>kalt\<close> is the key of the altitude, \<open>kref\<close> that of its reference.
\<close>

definition altitude :: "env \<Rightarrow> (key \<times> pyval) list \<Rightarrow> key \<Rightarrow> key \<Rightarrow> real option" where
  "altitude E d kalt kref =
     (case dict_get d kalt of
        None \<Rightarrow> None
      | Some v \<Rightarrow>
         (case rational_to_float E v of
            None \<Rightarrow> None
          | Some a \<Rightarrow>
             (let ref = (case dict_get d kref of None \<Rightarrow> PInt 0 | Some r \<Rightarrow> r)
              in Some (if equals_one ref then - a else a))))"

text \<open>Lines 83-85 and 106-108.\<close>

fun lat_lon_alt :: "real option \<Rightarrow> real option \<Rightarrow> real option \<Rightarrow> gps option" where
  "lat_lon_alt (Some lat) (Some lon) alt = Some (lat, lon, alt)"
| "lat_lon_alt lat lon alt = None"

text \<open>\<^verbatim>\<open>d.get(k)\<close> as a Python value: \<^verbatim>\<open>None\<close> for a missing key.\<close>

definition get_or_none :: "(key \<times> pyval) list \<Rightarrow> key \<Rightarrow> pyval" where
  "get_or_none d k = (case dict_get d k of None \<Rightarrow> PNone | Some v \<Rightarrow> v)"

subsection \<open>Tag-dictionary path (lines 64-85)\<close>

text \<open>The dictionary comprehension of line 74.\<close>

definition remap_gps :: "(key \<times> pyval) list \<Rightarrow> (key \<times> pyval) list" where
  "remap_gps gps_ifd = map (\<lambda>(k, v). (GPSTAGS_get k, v)) gps_ifd"

definition extract_gps_from_pil_exif :: "env \<Rightarrow> (key \<times> pyval) list \<Rightarrow> gps option" where
  "extract_gps_from_pil_exif E exif =
     (if exif = [] then None
      else case TAGS_get_GPSInfo of
        None \<Rightarrow> None
      | Some gps_ifd_tag \<Rightarrow>
         (case dict_get exif (KInt gps_ifd_tag) of
            Some (PDict gps_ifd) \<Rightarrow>
              (let gps = remap_gps gps_ifd;
                   lat = dms_to_deg E (get_or_none gps (KStr ''GPSLatitude''))
                           (get_or_none gps (KStr ''GPSLatitudeRef''));
                   lon = dms_to_deg E (get_or_none gps (KStr ''GPSLongitude''))
                           (get_or_none gps (KStr ''GPSLongitudeRef''));
                   alt = altitude E gps (KStr ''GPSAltitude'') (KStr ''GPSAltitudeRef'')
               in lat_lon_alt lat lon alt)
          | _ \<Rightarrow> None))"

subsection \<open>Raw-bytes path (lines 87-110)\<close>

text \<open>
  \<^verbatim>\<open>gps_ifd.get(k, b"").decode("ascii", "ignore") or None\<close>: only bytes have \<^verbatim>\<open>decode\<close>;
  bytes outside ASCII are dropped; an empty text becomes \<^verbatim>\<open>None\<close>.
\<close>

definition ref_letter :: "(key \<times> pyval) list \<Rightarrow> key \<Rightarrow> error + pyval" where
  "ref_letter gps_ifd k =
     (case (case dict_get gps_ifd k of None \<Rightarrow> PBytes [] | Some v \<Rightarrow> v) of
        PBytes b \<Rightarrow>
          (let s = filter (\<lambda>c. (of_char c :: nat) < 128) b
           in Inr (if s = [] then PNone else PStr s))
      | _ \<Rightarrow> Inl AttributeError)"

definition extract_gps_from_piexif_bytes_try :: "env \<Rightarrow> pyval \<Rightarrow> error + gps option" where
  "extract_gps_from_piexif_bytes_try E exif_bytes =
     and_then (piexif_load E exif_bytes) (\<lambda>gps_ifd.
       if gps_ifd = [] then Inr None
       else and_then (ref_letter gps_ifd (KInt 1)) (\<lambda>lat_ref.
            and_then (ref_letter gps_ifd (KInt 3)) (\<lambda>lon_ref.
              Inr (lat_lon_alt
                     (dms_to_deg E (get_or_none gps_ifd (KInt 2)) lat_ref)
                     (dms_to_deg E (get_or_none gps_ifd (KInt 4)) lon_ref)
                     (altitude E gps_ifd (KInt 6) (KInt 5))))))"

definition extract_gps_from_piexif_bytes :: "env \<Rightarrow> pyval \<Rightarrow> gps option" where
  "extract_gps_from_piexif_bytes E exif_bytes =
     (if \<not> (have_piexif E \<and> truthy exif_bytes) then None
      else except_none (extract_gps_from_piexif_bytes_try E exif_bytes))"

section \<open>Paths and text\<close>

text \<open>
  Paths are POSIX texts. \<open>path_name\<close> is \<^verbatim>\<open>Path.name\<close> (the last component),
  \<open>path_suffix\<close> is \<^verbatim>\<open>Path.suffix\<close> (from the last dot of the name, unless that dot is
  the first or the last character), \<open>lower\<close> is \<^verbatim>\<open>str.lower\<close> on ASCII letters, the
  only ones that can turn into a character of \<open>IMG_EXTS\<close>.
\<close>

definition path_join :: "string \<Rightarrow> string \<Rightarrow> string" where
  "path_join dirpath name = dirpath @ ''/'' @ name"

definition path_name :: "string \<Rightarrow> string" where
  "path_name p = rev (takeWhile (\<lambda>c. c \<noteq> CHR ''/'') (rev p))"

definition path_suffix :: "string \<Rightarrow> string" where
  "path_suffix p =
     (let name = path_name p;
          after = length (takeWhile (\<lambda>c. c \<noteq> CHR ''.'') (rev name))
      in if after < length name \<and> 0 < after \<and> after + 1 < length name
         then drop (length name - (after + 1)) name else [])"

definition lower_char :: "char \<Rightarrow> char" where
  "lower_char c =
     (case map_of (zip ''ABCDEFGHIJKLMNOPQRSTUVWXYZ'' ''abcdefghijklmnopqrstuvwxyz'') c of
        None \<Rightarrow> c
      | Some l \<Rightarrow> l)"

definition lower :: "string \<Rightarrow> string" where
  "lower s = map lower_char s"

text \<open>
  \<^verbatim>\<open>str(p.relative_to(folder))\<close>: the part of \<open>p\<close> below \<open>folder\<close>, or \<open>ValueError\<close>
  when \<open>p\<close> is not below it.
\<close>

definition relative_to :: "string \<Rightarrow> string \<Rightarrow> error + string" where
  "relative_to p folder =
     (if take (length folder + 1) p = folder @ ''/''
      then Inr (drop (length folder + 1) p) else Inl ValueError)"

text \<open>The decimal text of a counter in an f-string.\<close>

fun decimal :: "nat \<Rightarrow> string" where
  "decimal n =
     (if n < 10 then [''0123456789'' ! n]
      else decimal (n div 10) @ [''0123456789'' ! (n mod 10)])"

declare decimal.simps [simp del]

definition quot :: string where
  "quot = [CHR 0x22]"

definition apos :: string where
  "apos = [CHR 0x27]"

definition newline :: string where
  "newline = [CHR 0x0A]"

section \<open>Metadata Resolver (lines 112-144 and 200-208)\<close>

text \<open>
  What the image libraries deliver for one file: \<^verbatim>\<open>Image.open\<close> raises or gives an
  image, whose \<^verbatim>\<open>getexif()\<close> raises or gives a mapping from tag numbers to values and
  whose \<^verbatim>\<open>info.get("exif")\<close> is a value (\<^verbatim>\<open>None\<close> when there is none);
  \<^verbatim>\<open>pillow_heif.open_heif\<close> raises or gives metadata blocks, each read through
  \<^verbatim>\<open>md.get("type")\<close> and \<^verbatim>\<open>md.get("data")\<close>.
\<close>

record image =
  getexif :: "error + (int \<times> pyval) list"
  info_exif :: pyval

record photo =
  fname :: string
  opened :: "error + image"
  heif_metadata :: "error + (pyval \<times> pyval) list"

definition RAW_EXIF_BYTES :: key where
  "RAW_EXIF_BYTES = KStr ''__RAW_EXIF_BYTES__''"

text \<open>\<^verbatim>\<open>dict(exif)\<close>: the keys of Pillow's mapping are integers.\<close>

definition dict_of_exif :: "(int \<times> pyval) list \<Rightarrow> (key \<times> pyval) list" where
  "dict_of_exif ex = map (\<lambda>(k, v). (KInt k, v)) ex"

text \<open>Lines 132-135: the data of the first block of type \<^verbatim>\<open>Exif\<close> with data.\<close>

definition heif_exif :: "(pyval \<times> pyval) list \<Rightarrow> pyval option" where
  "heif_exif mds =
     (case filter (\<lambda>(t, d). t = PStr ''Exif'' \<and> truthy d) mds of
        [] \<Rightarrow> None
      | (t, d) # rest \<Rightarrow> Some d)"

text \<open>Lines 124-137: the raw EXIF bytes, from the image or from the HEIF metadata.\<close>

definition raw_exif_bytes :: "env \<Rightarrow> string \<Rightarrow> photo \<Rightarrow> image \<Rightarrow> pyval" where
  "raw_exif_bytes E path f im =
     (let exif_bytes = info_exif im
      in if \<not> truthy exif_bytes \<and> have_pillow_heif E
            \<and> lower (path_suffix path) \<in> {''.heic'', ''.heif''}
         then (case heif_metadata f of
                 Inl e \<Rightarrow> exif_bytes
               | Inr mds \<Rightarrow> (case heif_exif mds of None \<Rightarrow> exif_bytes | Some d \<Rightarrow> d))
         else exif_bytes)"

definition get_exif_any_try :: "env \<Rightarrow> string \<Rightarrow> photo \<Rightarrow> error + (key \<times> pyval) list" where
  "get_exif_any_try E path f =
     and_then (opened f) (\<lambda>im.
     and_then (getexif im) (\<lambda>ex.
       let exif = dict_of_exif ex
       in if extract_gps_from_pil_exif E exif \<noteq> None then Inr exif
          else let exif_bytes = raw_exif_bytes E path f im
               in if truthy exif_bytes then Inr [(RAW_EXIF_BYTES, exif_bytes)]
                  else Inr exif))"

definition get_exif_any :: "env \<Rightarrow> string \<Rightarrow> photo \<Rightarrow> (key \<times> pyval) list" where
  "get_exif_any E path f =
     (case get_exif_any_try E path f of Inl e \<Rightarrow> [] | Inr d \<Rightarrow> d)"

text \<open>Lines 200-208 of \<^verbatim>\<open>main\<close>: the coordinate of one file, or \<^verbatim>\<open>None\<close>.\<close>

definition file_gps :: "env \<Rightarrow> string \<Rightarrow> photo \<Rightarrow> gps option" where
  "file_gps E p f =
     (let exif_or_raw = get_exif_any E p f;
          gps = (if dict_get exif_or_raw RAW_EXIF_BYTES = None
                 then extract_gps_from_pil_exif E exif_or_raw else None)
      in case dict_get exif_or_raw RAW_EXIF_BYTES of
           Some raw \<Rightarrow> (if gps = None then extract_gps_from_piexif_bytes E raw else gps)
         | None \<Rightarrow> gps)"

section \<open>KML Builder (lines 146-173)\<close>

record placemark =
  name :: string
  lat :: real
  lon :: real
  alt :: "real option"
  desc :: string

text \<open>
  \<^verbatim>\<open>s.replace(old, new)\<close>: every occurrence of \<open>old\<close>, found from left to right without
  overlap, becomes \<open>new\<close>; for an empty \<open>old\<close>, \<open>new\<close> is put around every character.
\<close>

function str_replace :: "string \<Rightarrow> string \<Rightarrow> string \<Rightarrow> string" where
  "str_replace old new s =
     (if old = [] then new @ concat (map (\<lambda>c. c # new) s)
      else if s = [] then []
      else if take (length old) s = old
        then new @ str_replace old new (drop (length old) s)
        else hd s # str_replace old new (tl s))"
  by pat_completeness auto
termination
  by (relation "measure (\<lambda>(old, new, s). length s)") auto

declare str_replace.simps [simp del]

definition xml_escape :: "string \<Rightarrow> string" where
  "xml_escape s =
     str_replace apos ''&apos;''
       (str_replace quot ''&quot;''
         (str_replace ''>'' ''&gt;''
           (str_replace ''<'' ''&lt;''
             (str_replace ''&'' ''&amp;'' s))))"

text \<open>Lines 154-156.\<close>

definition coords :: "env \<Rightarrow> placemark \<Rightarrow> string" where
  "coords E pm =
     (let c = float_text E (lon pm) @ '','' @ float_text E (lat pm)
      in case alt pm of None \<Rightarrow> c | Some a \<Rightarrow> c @ '','' @ float_text E a)"

text \<open>Lines 157-164: the text appended to \<^verbatim>\<open>body_parts\<close> for one placemark.\<close>

definition body_part :: "env \<Rightarrow> placemark \<Rightarrow> string" where
  "body_part E pm =
     (let name' = xml_escape (name pm);
          desc' = xml_escape (desc pm)
      in ''    <Placemark>'' @ newline
         @ ''      <name>'' @ name' @ ''</name>'' @ newline
         @ ''      '' @ (if desc' \<noteq> [] then ''<description>'' @ desc' @ ''</description>''
                         else []) @ newline
         @ ''      <Point><coordinates>'' @ coords E pm @ ''</coordinates></Point>'' @ newline
         @ ''    </Placemark>'' @ newline)"

text \<open>Lines 147-151 and 165: the texts \<^verbatim>\<open>header\<close> and \<^verbatim>\<open>footer\<close>.\<close>

definition kml_header :: "string \<Rightarrow> string" where
  "kml_header doc_name =
     ''<?xml version='' @ quot @ ''1.0'' @ quot @ '' encoding='' @ quot @ ''UTF-8''
       @ quot @ ''?>'' @ newline
     @ ''<kml xmlns='' @ quot @ ''http://www.opengis.net/kml/2.2'' @ quot @ ''>'' @ newline
     @ ''  <Document>'' @ newline
     @ ''    <name>'' @ xml_escape doc_name @ ''</name>'' @ newline"

definition kml_footer :: string where
  "kml_footer = ''  </Document>'' @ newline @ ''</kml>'' @ newline"

definition build_kml :: "env \<Rightarrow> placemark list \<Rightarrow> string \<Rightarrow> string" where
  "build_kml E pms doc_name =
     kml_header doc_name @ concat (map (body_part E) pms) @ kml_footer"

section \<open>Scan Orchestrator (lines 175-241)\<close>

record scan =
  placemarks :: "placemark list"
  total :: nat
  with_gps :: nat
  skipped :: nat
  warnings :: "string list"

definition scan_start :: scan where
  "scan_start = \<lparr>placemarks = [], total = 0, with_gps = 0, skipped = 0, warnings = []\<rparr>"

text \<open>
  Lines 195-225, one turn of the inner loop. The only statement of the \<^verbatim>\<open>try\<close> that
  can raise in the model is \<^verbatim>\<open>p.relative_to(folder)\<close>, evaluated while the placemark
  is built, before it is appended and before \<^verbatim>\<open>with_gps\<close> is incremented.
\<close>

definition scan_file :: "env \<Rightarrow> string \<Rightarrow> string \<Rightarrow> scan \<Rightarrow> photo \<Rightarrow> scan" where
  "scan_file E folder dirpath st f =
     (let p = path_join dirpath (fname f)
      in if lower (path_suffix p) \<notin> set IMG_EXTS then st
         else let st1 = st\<lparr>total := total st + 1\<rparr>
              in case file_gps E p f of
                   None \<Rightarrow> st1\<lparr>skipped := skipped st1 + 1\<rparr>
                 | Some (lat', lon', alt') \<Rightarrow>
                    (case relative_to p folder of
                       Inl e \<Rightarrow>
                         st1\<lparr>skipped := skipped st1 + 1,
                             warnings := warnings st1
                               @ [''[WARN] '' @ p @ '': '' @ error_text E e]\<rparr>
                     | Inr rel \<Rightarrow>
                         st1\<lparr>placemarks := placemarks st1
                               @ [\<lparr>name = path_name p, lat = lat', lon = lon', alt = alt',
                                   desc = rel\<rparr>],
                             with_gps := with_gps st1 + 1\<rparr>))"

fun scan_files :: "env \<Rightarrow> string \<Rightarrow> string \<Rightarrow> scan \<Rightarrow> photo list \<Rightarrow> scan" where
  "scan_files E folder dirpath st [] = st"
| "scan_files E folder dirpath st (f # fs) =
     scan_files E folder dirpath (scan_file E folder dirpath st f) fs"

text \<open>The outer loop over what \<^verbatim>\<open>os.walk\<close> yields: a directory and its files.\<close>

fun scan_walk :: "env \<Rightarrow> string \<Rightarrow> scan \<Rightarrow> (string \<times> photo list) list \<Rightarrow> scan" where
  "scan_walk E folder st [] = st"
| "scan_walk E folder st ((dirpath, files) # rest) =
     scan_walk E folder (scan_files E folder dirpath st files) rest"

definition summary :: "scan \<Rightarrow> string" where
  "summary st =
     ''Scanned '' @ decimal (total st) @ '' images; '' @ decimal (with_gps st)
       @ '' with GPS; '' @ decimal (skipped st) @ '' skipped.''"

text \<open>
  The arguments and the file system as \<^verbatim>\<open>main\<close> sees them: the resolved folder, the
  resolved \<^verbatim>\<open>--output\<close> path if given, whether the folder is an existing directory, the
  walk, and whether writing a text to a path raises.
\<close>

record world =
  folder :: string
  output_arg :: "string option"
  is_dir :: bool
  walk :: "(string \<times> photo list) list"
  write_text :: "string \<Rightarrow> string \<Rightarrow> error option"

record outcome =
  exit_code :: int
  stdout :: "string list"
  stderr :: "string list"
  written :: "(string \<times> string) list"

definition out_path :: "world \<Rightarrow> string" where
  "out_path w =
     (case output_arg w of
        Some path \<Rightarrow>
          (if path \<noteq> [] then path
           else path_join (folder w) (path_name (folder w) @ ''_images.kml''))
      | None \<Rightarrow> path_join (folder w) (path_name (folder w) @ ''_images.kml''))"

definition main :: "env \<Rightarrow> world \<Rightarrow> outcome" where
  "main E w =
     (if \<not> is_dir w
      then \<lparr>exit_code = 3, stdout = [], stderr = [''Not a folder: '' @ folder w],
            written = []\<rparr>
      else let st = scan_walk E (folder w) scan_start (walk w)
           in if placemarks st = []
              then \<lparr>exit_code = 4, stdout = [],
                    stderr = warnings st
                      @ [''No geotagged images found. No KML written.'', summary st],
                    written = []\<rparr>
              else let kml = build_kml E (placemarks st)
                               (path_name (folder w) @ '' (Geotagged Images)'')
                   in case write_text w (out_path w) kml of
                        Some e \<Rightarrow>
                          \<lparr>exit_code = 5, stdout = [],
                           stderr = warnings st
                             @ [''Failed to write KML: '' @ error_text E e],
                           written = []\<rparr>
                      | None \<Rightarrow>
                          \<lparr>exit_code = 0,
                           stdout = [''Wrote KML: '' @ out_path w, summary st],
                           stderr = warnings st,
                           written = [(out_path w, kml)]\<rparr>)"

section \<open>Sample data\<close>

text \<open>
  Concrete inputs on which the properties below are exercised. \<open>sample_blob\<close> and
  \<open>far_blob\<close> stand for two EXIF blobs; \<open>sample_env\<close> is an installation with both
  optional libraries in which \<^verbatim>\<open>piexif.load\<close> finds the GPS entries \<open>sample_gps_ifd\<close> in
  the first blob and \<open>far_gps_ifd\<close> in the second, and raises on any other value.
\<close>

definition dms_value :: "int \<Rightarrow> int \<Rightarrow> int \<Rightarrow> pyval" where
  "dms_value d m s = PTuple [PTuple [PInt d, PInt 1], PTuple [PInt m, PInt 1],
     PTuple [PInt s, PInt 1]]"

definition sample_gps_ifd :: "(key \<times> pyval) list" where
  "sample_gps_ifd =
     [(KInt 1, PBytes ''N''), (KInt 2, dms_value 10 30 0),
      (KInt 3, PBytes ''W''), (KInt 4, dms_value 20 15 0),
      (KInt 5, PInt 1), (KInt 6, PTuple [PInt 100, PInt 1])]"

definition far_gps_ifd :: "(key \<times> pyval) list" where
  "far_gps_ifd =
     [(KInt 1, PBytes ''N''), (KInt 2, dms_value 200 0 0),
      (KInt 3, PBytes ''E''), (KInt 4, dms_value 10 0 0)]"

definition sample_blob :: pyval where
  "sample_blob = PBytes ''Exif-sample''"

definition far_blob :: pyval where
  "far_blob = PBytes ''Exif-far''"

definition sample_env :: env where
  "sample_env =
     \<lparr>have_pillow_heif = True, have_piexif = True,
      piexif_load = (\<lambda>b. if b = sample_blob then Inr sample_gps_ifd
                           else if b = far_blob then Inr far_gps_ifd
                           else Inl (LibraryError ''unpack requires a buffer'')),
      float_of_text = (\<lambda>s. if s = ''1.5'' then Some (3 / 2)
                            else if s = ''0.0'' then Some 0 else None),
      float_text = (\<lambda>r. if r = 45.6 then ''45.6'' else if r = 12.3 then ''12.3''
                          else if r = 7.8 then ''7.8'' else ''0.0''),
      error_text = (\<lambda>e. ''is not in the subpath''),
      float_of_zero_den = (\<lambda>n. Inl ZeroDivisionError)\<rparr>"

text \<open>
  A tag dictionary as the tag-dictionary path expects it: the GPS entries under tag
  34853, keyed by GPS tag numbers, rationals as objects with numerator and denominator;
  north 10 degrees 30 minutes, west 20 degrees 15 minutes, 100 below sea level.
\<close>

definition sample_pil_exif :: "(key \<times> pyval) list" where
  "sample_pil_exif =
     [(KInt 34853, PDict
        [(KInt 1, PStr ''N''),
         (KInt 2, PTuple [PObj 10 1, PObj 30 1,
                          PObj 0 1]),
         (KInt 3, PStr ''W''),
         (KInt 4, PTuple [PObj 20 1, PObj 15 1,
                          PObj 0 1]),
         (KInt 5, PInt 1),
         (KInt 6, PObj 100 1)])]"

text \<open>
  The same installation without piexif (the import of line 26 failed); \<open>piexif_load\<close>
  still tells what the parser would find in a blob.
\<close>

definition no_piexif_env :: env where
  "no_piexif_env = sample_env\<lparr>have_piexif := False\<rparr>"

text \<open>An integer beyond the range of floats.\<close>

definition huge_int :: int where
  "huge_int = 2 ^ 1024"

definition sample_placemark :: placemark where
  "sample_placemark =
     \<lparr>name = ''a.jpg'', lat = 12.3, lon = 45.6, alt = Some 7.8, desc = ''a.jpg''\<rparr>"

text \<open>
  Files as the libraries see them: an image without any EXIF data, a JPEG whose tag
  dictionary has no GPS entry and whose raw EXIF bytes are \<open>sample_blob\<close>, a file that
  \<^verbatim>\<open>Image.open\<close> rejects, an image whose raw EXIF bytes the parser rejects, a HEIC file
  whose EXIF bytes are found only among the HEIF metadata blocks, and a text file.
\<close>

definition plain_photo :: photo where
  "plain_photo = \<lparr>fname = ''a.jpg'',
     opened = Inr \<lparr>getexif = Inr [], info_exif = PNone\<rparr>,
     heif_metadata = Inl (LibraryError ''not a HEIF file'')\<rparr>"

definition raw_photo :: photo where
  "raw_photo = \<lparr>fname = ''b.JPG'',
     opened = Inr \<lparr>getexif = Inr [(271, PStr ''Canon'')], info_exif = sample_blob\<rparr>,
     heif_metadata = Inl (LibraryError ''not a HEIF file'')\<rparr>"

definition broken_photo :: photo where
  "broken_photo = \<lparr>fname = ''c.jpg'',
     opened = Inl (LibraryError ''cannot identify image file''),
     heif_metadata = Inl (LibraryError ''not a HEIF file'')\<rparr>"

definition garbled_photo :: photo where
  "garbled_photo = \<lparr>fname = ''d.tiff'',
     opened = Inr \<lparr>getexif = Inr [], info_exif = PBytes ''junk''\<rparr>,
     heif_metadata = Inl (LibraryError ''not a HEIF file'')\<rparr>"

definition heic_photo :: photo where
  "heic_photo = \<lparr>fname = ''e.HEIC'',
     opened = Inr \<lparr>getexif = Inr [], info_exif = PNone\<rparr>,
     heif_metadata = Inr [(PStr ''XMP'', PBytes ''<x:xmpmeta/>''), (PStr ''Exif'', sample_blob)]\<rparr>"

definition notes_file :: photo where
  "notes_file = \<lparr>fname = ''notes.txt'',
     opened = Inl (LibraryError ''cannot identify image file''),
     heif_metadata = Inl (LibraryError ''not a HEIF file'')\<rparr>"

text \<open>A run on the folder \<^verbatim>\<open>/photos\<close> holding the given files, without \<^verbatim>\<open>--output\<close>.\<close>

definition world_of :: "photo list \<Rightarrow> world" where
  "world_of files = \<lparr>folder = ''/photos'', output_arg = None, is_dir = True,
     walk = [(''/photos'', files)], write_text = (\<lambda>path text. None)\<rparr>"

section \<open>The specification's own words\<close>

text \<open>
  The specification gives the escaping as a table from characters to entities; the
  program applies five replacements one after the other. \<open>xml_entity\<close> is the table.
\<close>

definition xml_entity :: "char \<Rightarrow> string" where
  "xml_entity c =
     (if c = CHR ''&'' then ''&amp;''
      else if c = CHR ''<'' then ''&lt;''
      else if c = CHR ''>'' then ''&gt;''
      else if c = CHR 0x22 then ''&quot;''
      else if c = CHR 0x27 then ''&apos;''
      else [c])"

text \<open>The relation between the counters and the placemarks that the scan keeps.\<close>

definition counters_ok :: "scan \<Rightarrow> bool" where
  "counters_ok st \<longleftrightarrow>
     total st = with_gps st + skipped st \<and> with_gps st = length (placemarks st)"

text \<open>
  The files that the counters count: a file is recognised when the lower-cased suffix of
  its path is one of \<open>IMG_EXTS\<close>; it is placed when it is recognised, yields a
  coordinate and has a path relative to the scanned folder. \<open>walk_files\<close> lists the
  files of a walk in scan order, each with its directory.
\<close>

definition recognised :: "string \<Rightarrow> photo \<Rightarrow> bool" where
  "recognised dirpath f \<longleftrightarrow> lower (path_suffix (path_join dirpath (fname f))) \<in> set IMG_EXTS"

definition placed :: "env \<Rightarrow> string \<Rightarrow> string \<Rightarrow> photo \<Rightarrow> bool" where
  "placed E fld dirpath f \<longleftrightarrow>
     recognised dirpath f
     \<and> file_gps E (path_join dirpath (fname f)) f \<noteq> None
     \<and> (case relative_to (path_join dirpath (fname f)) fld of Inl e \<Rightarrow> False | Inr rel \<Rightarrow> True)"

definition walk_files :: "(string \<times> photo list) list \<Rightarrow> (string \<times> photo) list" where
  "walk_files ws = concat (map (\<lambda>(dirpath, files). map (Pair dirpath) files) ws)"

section \<open>Properties\<close>

subsection \<open>Conversion of integers to floats\<close>

lemma float_int_limit_lower: "1000000 < float_int_limit"
  by (simp add: float_int_limit_def)

lemma float_int_limit_upper: "float_int_limit < 2 ^ 1024"
  unfolding float_int_limit_def by simp

declare py_float.simps(1) [simp del]

lemma py_float_small [simp]:
  "\<bar>n\<bar> \<le> 1000000 \<Longrightarrow> py_float E (PInt n) = Inr (of_int n)"
  using float_int_limit_lower by (simp add: py_float.simps(1))

lemma py_float_huge: "py_float E (PInt huge_int) = Inl OverflowError"
proof -
  have "\<bar>huge_int\<bar> = huge_int"
    unfolding huge_int_def by (rule abs_of_nonneg) (rule zero_le_power, simp)
  then have "\<not> \<bar>huge_int\<bar> < float_int_limit"
    using float_int_limit_upper unfolding huge_int_def by (simp only: not_less less_imp_le)
  then show ?thesis
    by (simp only: py_float.simps(1) if_False)
qed

subsection \<open>Rational Converter\<close>

declare py_float.simps(5) [simp del]

lemma py_float_obj_small [simp]:
  assumes "d \<noteq> 0" and "\<bar>n\<bar> \<le> 1000000"
  shows "py_float E (PObj n d) = Inr (of_int n / of_int d)"
proof -
  have "1 \<le> \<bar>d\<bar>" using assms(1) by simp
  then have d: "(1::real) \<le> \<bar>of_int d\<bar>" by linarith
  have n: "\<bar>of_int n :: real\<bar> \<le> 1000000" using assms(2) by linarith
  have "\<bar>of_int n / of_int d :: real\<bar> = \<bar>of_int n\<bar> / \<bar>of_int d\<bar>" by simp
  also have "\<dots> \<le> \<bar>of_int n\<bar> / 1"
    using d by (intro divide_left_mono) simp_all
  also have "\<dots> \<le> 1000000" using n by simp
  finally have "\<bar>of_int n / of_int d :: real\<bar> < of_int float_int_limit"
    using float_int_limit_lower by linarith
  then show ?thesis
    using assms(1) by (simp add: py_float.simps(5))
qed

text \<open>
  C3. On a pair \<open>(num, den)\<close>, a tuple of length 2 or a rational object with the two
  attributes, \<open>rational_to_float\<close> returns \<open>float(num) / float(den)\<close> when the denominator
  is nonzero and \<open>float(num)\<close> when it is zero, so \<open>(n, 0)\<close> gives \<open>float(n)\<close> and \<open>(0, 0)\<close>
  gives 0; on a plain number it returns \<open>float(x)\<close>; on a value that is not numeric
  or has the wrong shape (\<open>None\<close>, a list, a dictionary, a tuple of another length, text
  that is no numeral, a pair with a component whose conversion raises or whose nonzero
  denominator converts to 0.0) it returns \<open>None\<close>; every exception of the body becomes
  \<open>None\<close>. The first conjunct gives the result on every tuple of length 2.
\<close>

theorem rational_to_float_spec:
  "rational_to_float E (PTuple [num, den]) =
     (if truthy den
      then (case (py_float E num, py_float E den) of
              (Inr a, Inr b) \<Rightarrow> if b = 0 then None else Some (a / b)
            | _ \<Rightarrow> None)
      else (case py_float E num of Inr a \<Rightarrow> Some a | Inl e \<Rightarrow> None))
   \<and> (truthy den \<and> py_float E num = Inr a \<and> py_float E den = Inr b \<and> b \<noteq> 0 \<longrightarrow>
      rational_to_float E (PTuple [num, den]) = Some (a / b))
   \<and> (\<bar>n\<bar> < float_int_limit \<and> \<bar>j\<bar> < float_int_limit \<and> j \<noteq> 0 \<longrightarrow>
      rational_to_float E (PTuple [PInt n, PInt j]) = Some (of_int n / of_int j)
      \<and> rational_to_float E (PObj n j) = Some (of_int n / of_int j))
   \<and> (\<not> truthy den \<and> py_float E num = Inr a \<longrightarrow>
      rational_to_float E (PTuple [num, den]) = Some a)
   \<and> (\<bar>n\<bar> < float_int_limit \<longrightarrow>
      rational_to_float E (PTuple [PInt n, PInt 0]) = Some (of_int n)
      \<and> rational_to_float E (PObj n 0) = Some (of_int n)
      \<and> rational_to_float E (PInt n) = Some (of_int n))
   \<and> rational_to_float E (PTuple [PInt 0, PInt 0]) = Some 0
   \<and> rational_to_float E (PFloat r) = Some r
   \<and> rational_to_float E PNone = None
   \<and> rational_to_float E (PList xs) = None
   \<and> rational_to_float E (PDict kvs) = None
   \<and> (length xs \<noteq> 2 \<longrightarrow> rational_to_float E (PTuple xs) = None)
   \<and> (float_of_text E t = None \<longrightarrow>
        rational_to_float E (PStr t) = None \<and> rational_to_float E (PBytes t) = None)
   \<and> (py_float E num = Inl e \<or> (truthy den \<and> py_float E den = Inl e)
        \<or> (truthy den \<and> py_float E den = Inr 0) \<longrightarrow>
        rational_to_float E (PTuple [num, den]) = None)
   \<and> (float_int_limit \<le> \<bar>n\<bar> \<or> (j \<noteq> 0 \<and> float_int_limit \<le> \<bar>j\<bar>) \<longrightarrow>
        rational_to_float E (PTuple [PInt n, PInt j]) = None
        \<and> rational_to_float E (PObj n j) = None)
   \<and> (rational_to_float_try E x = Inl e \<longrightarrow> rational_to_float E x = None)"
proof -
  have pair: "\<And>num den. rational_to_float E (PTuple [num, den]) =
     (if truthy den
      then (case (py_float E num, py_float E den) of
              (Inr a, Inr b) \<Rightarrow> if b = 0 then None else Some (a / b)
            | _ \<Rightarrow> None)
      else (case py_float E num of Inr a \<Rightarrow> Some a | Inl e \<Rightarrow> None))"
  proof -
    fix num den
    show "rational_to_float E (PTuple [num, den]) =
       (if truthy den
        then (case (py_float E num, py_float E den) of
                (Inr a, Inr b) \<Rightarrow> if b = 0 then None else Some (a / b)
              | _ \<Rightarrow> None)
        else (case py_float E num of Inr a \<Rightarrow> Some a | Inl e \<Rightarrow> None))"
      by (cases "py_float E num"; cases "py_float E den")
         (simp_all add: rational_to_float_def ratio_def)
  qed
  have obj: "\<And>n j. rational_to_float E (PObj n j)
      = rational_to_float E (PTuple [PInt n, PInt j])"
    by (simp add: rational_to_float_def)
  have c1: "rational_to_float E (PTuple [num, den]) =
     (if truthy den
      then (case (py_float E num, py_float E den) of
              (Inr a, Inr b) \<Rightarrow> if b = 0 then None else Some (a / b)
            | _ \<Rightarrow> None)
      else (case py_float E num of Inr a \<Rightarrow> Some a | Inl e \<Rightarrow> None))"
    by (rule pair)
  have c2: "truthy den \<and> py_float E num = Inr a \<and> py_float E den = Inr b \<and> b \<noteq> 0 \<longrightarrow>
      rational_to_float E (PTuple [num, den]) = Some (a / b)"
    by (simp add: pair)
  have c3: "\<bar>n\<bar> < float_int_limit \<and> \<bar>j\<bar> < float_int_limit \<and> j \<noteq> 0 \<longrightarrow>
      rational_to_float E (PTuple [PInt n, PInt j]) = Some (of_int n / of_int j)
      \<and> rational_to_float E (PObj n j) = Some (of_int n / of_int j)"
    using float_int_limit_lower by (simp add: pair obj py_float.simps(1))
  have c4: "\<not> truthy den \<and> py_float E num = Inr a \<longrightarrow>
      rational_to_float E (PTuple [num, den]) = Some a"
    by (simp add: pair)
  have c5: "\<bar>n\<bar> < float_int_limit \<longrightarrow>
      rational_to_float E (PTuple [PInt n, PInt 0]) = Some (of_int n)
      \<and> rational_to_float E (PObj n 0) = Some (of_int n)
      \<and> rational_to_float E (PInt n) = Some (of_int n)"
    using float_int_limit_lower
    by (simp add: pair obj rational_to_float_def ratio_def py_float.simps(1))
  have c6: "rational_to_float E (PTuple [PInt 0, PInt 0]) = Some 0"
    by (simp add: pair)
  have c7: "rational_to_float E (PFloat r) = Some r"
    by (simp add: rational_to_float_def)
  have c8: "rational_to_float E PNone = None"
    by (simp add: rational_to_float_def)
  have c9: "rational_to_float E (PList xs) = None"
    by (simp add: rational_to_float_def)
  have c10: "rational_to_float E (PDict kvs) = None"
    by (simp add: rational_to_float_def)
  have c11: "length xs \<noteq> 2 \<longrightarrow> rational_to_float E (PTuple xs) = None"
    by (cases xs; cases "tl xs"; cases "tl (tl xs)") (auto simp: rational_to_float_def)
  have c12: "float_of_text E t = None \<longrightarrow>
        rational_to_float E (PStr t) = None \<and> rational_to_float E (PBytes t) = None"
    by (simp add: rational_to_float_def)
  have c13: "py_float E num = Inl e \<or> (truthy den \<and> py_float E den = Inl e)
        \<or> (truthy den \<and> py_float E den = Inr 0) \<longrightarrow>
        rational_to_float E (PTuple [num, den]) = None"
    by (cases "py_float E num"; cases "py_float E den") (auto simp: pair)
  have c14: "float_int_limit \<le> \<bar>n\<bar> \<or> (j \<noteq> 0 \<and> float_int_limit \<le> \<bar>j\<bar>) \<longrightarrow>
        rational_to_float E (PTuple [PInt n, PInt j]) = None
        \<and> rational_to_float E (PObj n j) = None"
    by (auto simp: pair obj py_float.simps(1))
  have c15: "rational_to_float_try E x = Inl e \<longrightarrow> rational_to_float E x = None"
    by (simp add: rational_to_float_def)
  show ?thesis
    by (intro conjI) (rule c1, rule c2, rule c3, rule c4, rule c5, rule c6, rule c7, rule c8, rule c9, rule c10, rule c11, rule c12, rule c13, rule c14, rule c15)
qed

theorem rational_to_float_spec_witness:
  "rational_to_float sample_env (PTuple [PInt 3, PInt 4]) = Some (3 / 4)
   \<and> rational_to_float sample_env (PObj 3 4) = Some (3 / 4)
   \<and> rational_to_float sample_env (PTuple [PFloat 3, PStr ''1.5'']) = Some 2
   \<and> rational_to_float sample_env (PTuple [PObj 6 1, PInt 2]) = Some 3
   \<and> rational_to_float sample_env (PTuple [PObj 6 1, PObj 2 1]) = Some 3
   \<and> rational_to_float sample_env (PTuple [PInt 6, PObj 0 1]) = Some 6
   \<and> rational_to_float sample_env (PTuple [PInt 5, PInt 0]) = Some 5
   \<and> rational_to_float sample_env (PObj 5 0) = Some 5
   \<and> rational_to_float sample_env (PTuple [PFloat 7, PNone]) = Some 7
   \<and> rational_to_float sample_env (PInt 5) = Some 5
   \<and> rational_to_float sample_env (PTuple [PInt 1, PInt 2, PInt 3]) = None
   \<and> rational_to_float sample_env (PStr ''N'') = None
   \<and> rational_to_float sample_env (PTuple [PStr ''N'', PInt 2]) = None
   \<and> rational_to_float sample_env (PTuple [PInt 1, PStr ''0.0'']) = None
   \<and> rational_to_float sample_env (PTuple [PInt huge_int, PInt 1]) = None"
proof -
  have f: "py_float sample_env (PFloat 3) = Inr 3"
      "py_float sample_env (PStr ''1.5'') = Inr (3 / 2)"
      "py_float sample_env (PFloat 7) = Inr 7"
      "py_float sample_env (PStr ''N'') = Inl ValueError"
      "py_float sample_env (PStr ''0.0'') = Inr 0"
      "py_float sample_env (PObj 6 1) = Inr 6"
      "py_float sample_env (PObj 2 1) = Inr 2"
      "py_float sample_env (PInt 6) = Inr 6"
      "py_float sample_env (PInt 2) = Inr 2"
      "py_float sample_env (PInt 1) = Inr 1"
      "float_of_text sample_env ''N'' = None"
    by (simp_all add: sample_env_def)
  have r: "\<bar>3\<bar> < float_int_limit" "\<bar>4\<bar> < float_int_limit" "\<bar>5\<bar> < float_int_limit"
    using float_int_limit_lower by simp_all
  have h: "float_int_limit \<le> \<bar>huge_int\<bar>"
    using float_int_limit_upper by (simp add: huge_int_def)
  note w1 = rational_to_float_spec [where E = sample_env and n = 3 and j = 4]
  note w2 = rational_to_float_spec [where E = sample_env and num = "PFloat 3"
      and den = "PStr ''1.5''" and a = 3 and b = "3 / 2"]
  note w3 = rational_to_float_spec [where E = sample_env and n = 5]
  note w4 = rational_to_float_spec [where E = sample_env and num = "PFloat 7" and den = PNone
      and a = 7]
  note w5 = rational_to_float_spec [where E = sample_env and xs = "[PInt 1, PInt 2, PInt 3]"
      and t = "''N''"]
  note w6 = rational_to_float_spec [where E = sample_env and num = "PStr ''N''"
      and den = "PInt 2" and e = ValueError]
  note w7 = rational_to_float_spec [where E = sample_env and n = huge_int and j = 1]
  note w8 = rational_to_float_spec [where E = sample_env and num = "PObj 6 1"
      and den = "PInt 2" and a = 6 and b = 2]
  note w9 = rational_to_float_spec [where E = sample_env and num = "PObj 6 1"
      and den = "PObj 2 1" and a = 6 and b = 2]
  note w10 = rational_to_float_spec [where E = sample_env and num = "PInt 6"
      and den = "PObj 0 1" and a = 6]
  note w11 = rational_to_float_spec [where E = sample_env and num = "PInt 1"
      and den = "PStr ''0.0''"]
  have tr: "truthy (PStr ''1.5'')" "truthy (PInt 2)" "truthy (PObj 2 1)"
      "\<not> truthy (PObj 0 1)" "\<not> truthy PNone" "truthy (PStr ''0.0'')"
      "(3 / 2 :: real) \<noteq> 0" "(2 :: real) \<noteq> 0" "(4 :: int) \<noteq> 0" "(1 :: int) \<noteq> 0"
      "length [PInt 1, PInt 2, PInt 3] \<noteq> 2"
    by simp_all
  have p1: "rational_to_float sample_env (PTuple [PInt 3, PInt 4])
        = Some (of_int 3 / of_int 4)"
      "rational_to_float sample_env (PObj 3 4) = Some (of_int 3 / of_int 4)"
    using w1 r tr by blast+
  have p2: "rational_to_float sample_env (PTuple [PFloat 3, PStr ''1.5''])
        = Some (3 / (3 / 2))"
    using w2 f tr by blast
  have p3: "rational_to_float sample_env (PTuple [PInt 5, PInt 0]) = Some (of_int 5)"
      "rational_to_float sample_env (PObj 5 0) = Some (of_int 5)"
      "rational_to_float sample_env (PInt 5) = Some (of_int 5)"
    using w3 r by blast+
  have p4: "rational_to_float sample_env (PTuple [PFloat 7, PNone]) = Some 7"
    using w4 f tr by blast
  have p5: "rational_to_float sample_env (PTuple [PInt 1, PInt 2, PInt 3]) = None"
      "rational_to_float sample_env (PStr ''N'') = None"
    using w5 f tr by blast+
  have p6: "rational_to_float sample_env (PTuple [PStr ''N'', PInt 2]) = None"
    using w6 f by blast
  have p7: "rational_to_float sample_env (PTuple [PInt huge_int, PInt 1]) = None"
    using w7 h by blast
  have p8: "rational_to_float sample_env (PTuple [PObj 6 1, PInt 2]) = Some (6 / 2)"
    using w8 f tr by blast
  have p9: "rational_to_float sample_env (PTuple [PObj 6 1, PObj 2 1]) = Some (6 / 2)"
    using w9 f tr by blast
  have p10: "rational_to_float sample_env (PTuple [PInt 6, PObj 0 1]) = Some 6"
    using w10 f tr by blast
  have p11: "rational_to_float sample_env (PTuple [PInt 1, PStr ''0.0'']) = None"
    using w11 f tr by blast
  show ?thesis
    using p1 p2 p3 p4 p5 p6 p7 p8 p9 p10 p11 by simp
qed

subsection \<open>DMS-to-Decimal Converter\<close>

lemma dms_to_deg_seq:
  "dms = PTuple xs \<or> dms = PList xs \<Longrightarrow>
   dms_to_deg E dms ref =
     (case xs of
        [a, b, c] \<Rightarrow>
          dms_sum (rational_to_float E a) (rational_to_float E b) (rational_to_float E c) ref
      | _ \<Rightarrow> None)"
  by (auto simp: dms_to_deg_def dms_to_deg_try_def split: list.splits)

lemma rational_to_float_small_pair:
  "\<bar>n\<bar> \<le> 1000000 \<Longrightarrow> rational_to_float E (PTuple [PInt n, PInt 1]) = Some (of_int n)"
  by (simp add: rational_to_float_def ratio_def)

text \<open>
  C1. For a sequence \<open>dms\<close> (tuple or list) and any reference value \<open>ref\<close>,
  \<open>dms_to_deg\<close> returns \<open>None\<close> when the sequence is empty or has a length other than 3
  or when the Rational Converter returns \<open>None\<close> on one of the three components;
  otherwise it returns \<open>d + m / 60 + s / 3600\<close> of the three converted components,
  negated exactly when \<open>ref\<close> is the text \<^verbatim>\<open>S\<close> or \<^verbatim>\<open>W\<close>. An exception raised in the body
  is turned into \<open>None\<close>, so the function never raises. The triple
  \<^verbatim>\<open>[(10,1),(30,1),(0,1)]\<close> gives 10.5 with \<^verbatim>\<open>N\<close> and -10.5 with \<^verbatim>\<open>S\<close>.
\<close>

theorem dms_to_deg_spec:
  "(dms = PTuple xs \<or> dms = PList xs \<longrightarrow>
      (length xs \<noteq> 3 \<longrightarrow> dms_to_deg E dms ref = None)
    \<and> (xs = [a, b, c] \<longrightarrow>
         (rational_to_float E a = None \<or> rational_to_float E b = None
            \<or> rational_to_float E c = None \<longrightarrow> dms_to_deg E dms ref = None)
       \<and> (rational_to_float E a = Some d \<and> rational_to_float E b = Some m
            \<and> rational_to_float E c = Some s \<longrightarrow>
            dms_to_deg E dms ref =
              Some (if ref = PStr ''S'' \<or> ref = PStr ''W''
                    then - (d + m / 60 + s / 3600) else d + m / 60 + s / 3600))))
   \<and> (dms_to_deg_try E dms ref = Inl e \<longrightarrow> dms_to_deg E dms ref = None)
   \<and> dms_to_deg E (PList [PTuple [PInt 10, PInt 1], PTuple [PInt 30, PInt 1],
        PTuple [PInt 0, PInt 1]]) (PStr ''N'') = Some 10.5
   \<and> dms_to_deg E (PList [PTuple [PInt 10, PInt 1], PTuple [PInt 30, PInt 1],
        PTuple [PInt 0, PInt 1]]) (PStr ''S'') = Some (- 10.5)"
proof -
  have short: "length xs \<noteq> 3 \<Longrightarrow> dms = PTuple xs \<or> dms = PList xs
      \<Longrightarrow> dms_to_deg E dms ref = None"
    by (auto simp: dms_to_deg_seq split: list.splits)
  have three: "dms = PTuple [a, b, c] \<or> dms = PList [a, b, c] \<Longrightarrow>
      dms_to_deg E dms ref =
        dms_sum (rational_to_float E a) (rational_to_float E b) (rational_to_float E c) ref"
    by (auto simp: dms_to_deg_seq)
  have bad: "rational_to_float E a = None \<or> rational_to_float E b = None
       \<or> rational_to_float E c = None \<Longrightarrow>
     dms_sum (rational_to_float E a) (rational_to_float E b) (rational_to_float E c) ref
       = None"
    by (cases "rational_to_float E a"; cases "rational_to_float E b";
        cases "rational_to_float E c") auto
  have caught: "dms_to_deg_try E dms ref = Inl e \<Longrightarrow> dms_to_deg E dms ref = None"
    by (simp add: dms_to_deg_def)
  have north: "dms_to_deg E (PList [PTuple [PInt 10, PInt 1], PTuple [PInt 30, PInt 1],
        PTuple [PInt 0, PInt 1]]) (PStr ''N'') = Some 10.5"
    by (simp add: dms_to_deg_seq rational_to_float_small_pair)
  have south: "dms_to_deg E (PList [PTuple [PInt 10, PInt 1], PTuple [PInt 30, PInt 1],
        PTuple [PInt 0, PInt 1]]) (PStr ''S'') = Some (- 10.5)"
    by (simp add: dms_to_deg_seq rational_to_float_small_pair)
  show ?thesis
    using short three bad caught north south by (auto simp: Let_def)
qed

theorem dms_to_deg_spec_witness:
  "dms_to_deg sample_env (PTuple [PInt 1, PInt 2]) (PStr ''W'') = None
   \<and> dms_to_deg sample_env (PList [PInt 1, PNone, PInt 3]) (PStr ''W'') = None
   \<and> dms_to_deg sample_env (PTuple [PInt 1, PInt 2, PInt 3]) (PStr ''W'')
       = Some (- (1 + 2 / 60 + 3 / 3600))
   \<and> dms_to_deg sample_env (PTuple [PInt 1, PInt 2, PInt 3]) (PStr ''E'')
       = Some (1 + 2 / 60 + 3 / 3600)
   \<and> dms_to_deg_try sample_env (PInt 7) PNone = Inl TypeError
   \<and> dms_to_deg sample_env (PInt 7) PNone = None"
proof -
  have cv: "rational_to_float sample_env (PInt 1) = Some 1"
      "rational_to_float sample_env (PInt 2) = Some 2"
      "rational_to_float sample_env (PInt 3) = Some 3"
      "rational_to_float sample_env PNone = None"
    by (simp_all add: rational_to_float_def ratio_def)
  have t: "dms_to_deg_try sample_env (PInt 7) PNone = Inl TypeError"
    by (simp add: dms_to_deg_try_def)
  note w1 = dms_to_deg_spec [where dms = "PTuple [PInt 1, PInt 2]" and xs = "[PInt 1, PInt 2]"
      and E = sample_env and ref = "PStr ''W''"]
  note w2 = dms_to_deg_spec [where dms = "PList [PInt 1, PNone, PInt 3]"
      and xs = "[PInt 1, PNone, PInt 3]" and a = "PInt 1" and b = PNone and c = "PInt 3"
      and E = sample_env and ref = "PStr ''W''"]
  note w3 = dms_to_deg_spec [where dms = "PTuple [PInt 1, PInt 2, PInt 3]"
      and xs = "[PInt 1, PInt 2, PInt 3]" and a = "PInt 1" and b = "PInt 2" and c = "PInt 3"
      and d = 1 and m = 2 and s = 3 and E = sample_env and ref = "PStr ''W''"]
  note w4 = dms_to_deg_spec [where dms = "PTuple [PInt 1, PInt 2, PInt 3]"
      and xs = "[PInt 1, PInt 2, PInt 3]" and a = "PInt 1" and b = "PInt 2" and c = "PInt 3"
      and d = 1 and m = 2 and s = 3 and E = sample_env and ref = "PStr ''E''"]
  note w5 = dms_to_deg_spec [where dms = "PInt 7" and E = sample_env and ref = PNone
      and e = TypeError]
  show ?thesis
    using w1 w2 w3 w4 w5 cv t by simp
qed

subsection \<open>Tag-dictionary path\<close>

lemma GPSTAGS_names:
  "map_of (rev GPSTAGS) ''GPSLatitude'' = Some 2"
  "map_of (rev GPSTAGS) ''GPSLongitude'' = Some 4"
  "map_of (rev GPSTAGS) ''GPSAltitude'' = Some 6"
  by (simp_all add: GPSTAGS_def ExifTags_GPSTAGS_def)

text \<open>
  No key of the remapped dictionary is one of the names that lines 75-78 look up: a
  number stays a number, and a name of the table becomes its number.
\<close>

lemma GPSTAGS_get_no_name:
  "s \<in> {''GPSLatitude'', ''GPSLongitude'', ''GPSAltitude''} \<Longrightarrow> GPSTAGS_get k \<noteq> KStr s"
  using GPSTAGS_names by (cases k) (auto split: option.splits)

lemma remap_gps_no_name:
  "s \<in> {''GPSLatitude'', ''GPSLongitude'', ''GPSAltitude''} \<Longrightarrow>
   dict_get (remap_gps gps_ifd) (KStr s) = None"
  using GPSTAGS_get_no_name [of s]
  by (force simp: dict_get_def remap_gps_def map_of_eq_None_iff)

lemma dms_to_deg_PNone: "dms_to_deg E PNone ref = None"
  by (simp add: dms_to_deg_def dms_to_deg_try_def)

lemma extract_gps_from_pil_exif_None: "extract_gps_from_pil_exif E exif = None"
  by (simp add: extract_gps_from_pil_exif_def get_or_none_def remap_gps_no_name
        dms_to_deg_PNone Let_def split: option.splits pyval.splits)

text \<open>
  C4, at a tag dictionary with latitude, longitude, an altitude of 100 and altitude
  reference 1: the tag-dictionary path returns no coordinate at all, and its altitude
  statements find no altitude in the remapped dictionary, although the same statements
  find -100 under the numeric keys.
\<close>

theorem pil_path_loses_altitude:
  "extract_gps_from_pil_exif sample_env sample_pil_exif = None
   \<and> altitude sample_env
         (remap_gps [(KInt 5, PInt 1), (KInt 6, PObj 100 1)])
         (KStr ''GPSAltitude'') (KStr ''GPSAltitudeRef'') = None
   \<and> altitude sample_env [(KInt 5, PInt 1), (KInt 6, PObj 100 1)]
         (KInt 6) (KInt 5) = Some (- 100)"
proof -
  have a1: "altitude sample_env
        (remap_gps [(KInt 5, PInt 1), (KInt 6, PObj 100 1)])
        (KStr ''GPSAltitude'') (KStr ''GPSAltitudeRef'') = None"
    by (simp add: altitude_def remap_gps_no_name)
  have a2: "altitude sample_env [(KInt 5, PInt 1), (KInt 6, PObj 100 1)]
        (KInt 6) (KInt 5) = Some (- 100)"
    by (simp add: altitude_def dict_get_def rational_to_float_def ratio_def)
  show ?thesis
    using a1 a2 by (simp add: extract_gps_from_pil_exif_None)
qed

subsection \<open>XML escaping\<close>

lemma str_replace_char:
  "str_replace [c] new s = concat (map (\<lambda>x. if x = c then new else [x]) s)"
proof (induction s)
  case Nil
  show ?case by (subst str_replace.simps) simp
next
  case (Cons x xs)
  show ?case
    by (subst str_replace.simps) (simp add: Cons.IH)
qed

lemma str_replace_char_append:
  "str_replace [c] new (xs @ ys) = str_replace [c] new xs @ str_replace [c] new ys"
  by (simp add: str_replace_char)

lemma xml_escape_append: "xml_escape (xs @ ys) = xml_escape xs @ xml_escape ys"
  by (simp add: xml_escape_def quot_def apos_def str_replace_char_append)

lemma xml_escape_Nil: "xml_escape [] = []"
  by (simp add: xml_escape_def quot_def apos_def str_replace_char)

lemma xml_escape_single: "xml_escape [c] = xml_entity c"
  by (simp add: xml_escape_def quot_def apos_def str_replace_char xml_entity_def)

lemma xml_escape_map: "xml_escape s = concat (map xml_entity s)"
proof (induction s)
  case Nil
  show ?case by (simp add: xml_escape_Nil)
next
  case (Cons c cs)
  have "xml_escape (c # cs) = xml_escape ([c] @ cs)" by simp
  also have "\<dots> = xml_entity c @ xml_escape cs"
    by (simp only: xml_escape_append xml_escape_single)
  finally show ?case by (simp add: Cons.IH)
qed

lemma xml_entity_clean:
  "set (xml_entity c) \<inter> {CHR ''<'', CHR ''>'', CHR 0x22, CHR 0x27} = {}"
  by (simp add: xml_entity_def)

text \<open>
  C6. The five replacements of \<open>xml_escape\<close>, applied one after the other with \<^verbatim>\<open>&\<close>
  first, have the effect of replacing every character of the input by its entity at once:
  the ampersand of an inserted entity is never escaped again. The output contains none of
  the characters \<^verbatim>\<open><\<close>, \<^verbatim>\<open>>\<close>, the double quote and the apostrophe, so no character of
  the input is left unescaped; a text with all five characters gets all five entities.
\<close>

theorem xml_escape_spec:
  "xml_escape s = concat (map xml_entity s)
   \<and> set (xml_escape s) \<inter> {CHR ''<'', CHR ''>'', CHR 0x22, CHR 0x27} = {}
   \<and> xml_escape (''a&b<c>d'' @ quot @ ''e'' @ apos @ ''f'')
       = ''a&amp;b&lt;c&gt;d&quot;e&apos;f''"
proof -
  have clean: "set (concat (map xml_entity s))
      \<inter> {CHR ''<'', CHR ''>'', CHR 0x22, CHR 0x27} = {}"
    using xml_entity_clean by (induction s) (auto simp: Int_Un_distrib2)
  have ex: "xml_escape (''a&b<c>d'' @ quot @ ''e'' @ apos @ ''f'')
      = ''a&amp;b&lt;c&gt;d&quot;e&apos;f''"
    by (simp add: xml_escape_map xml_entity_def quot_def apos_def)
  show ?thesis
    using clean ex by (simp add: xml_escape_map)
qed

subsection \<open>KML Builder\<close>

lemma coords_eq:
  "coords E pm = float_text E (lon pm) @ '','' @ float_text E (lat pm)
       @ (case alt pm of None \<Rightarrow> [] | Some a \<Rightarrow> '','' @ float_text E a)"
  by (simp add: coords_def Let_def split: option.splits)

lemma body_part_coords:
  "\<exists>pre post. body_part E pm
     = pre @ ''<coordinates>'' @ coords E pm @ ''</coordinates>'' @ post"
proof -
  let ?pre = "''    <Placemark>'' @ newline
         @ ''      <name>'' @ xml_escape (name pm) @ ''</name>'' @ newline
         @ ''      '' @ (if xml_escape (desc pm) \<noteq> []
                         then ''<description>'' @ xml_escape (desc pm) @ ''</description>''
                         else []) @ newline
         @ ''      <Point>''"
  let ?post = "''</Point>'' @ newline @ ''    </Placemark>'' @ newline"
  have "body_part E pm
      = ?pre @ ''<coordinates>'' @ coords E pm @ ''</coordinates>'' @ ?post"
    by (simp add: body_part_def Let_def)
  then show ?thesis by blast
qed

lemma build_kml_coords:
  assumes "pm \<in> set pms"
  shows "\<exists>pre post. build_kml E pms doc
     = pre @ ''<coordinates>'' @ coords E pm @ ''</coordinates>'' @ post"
proof -
  from assms obtain ys zs where pms: "pms = ys @ pm # zs"
    by (auto simp: in_set_conv_decomp)
  obtain p1 p2 where bp: "body_part E pm
      = p1 @ ''<coordinates>'' @ coords E pm @ ''</coordinates>'' @ p2"
    using body_part_coords by blast
  have "build_kml E pms doc
      = (kml_header doc @ concat (map (body_part E) ys) @ p1)
        @ ''<coordinates>'' @ coords E pm @ ''</coordinates>''
        @ (p2 @ concat (map (body_part E) zs) @ kml_footer)"
    by (simp only: build_kml_def pms map_append concat_append list.map concat.simps bp
          append_assoc)
  then show ?thesis by blast
qed

text \<open>
  C7. The coordinates text of a placemark is the text of the longitude, a comma, the
  text of the latitude, and a comma and the text of the altitude only when there is an
  altitude; \<open>build_kml\<close> emits it between \<^verbatim>\<open><coordinates>\<close> and \<^verbatim>\<open></coordinates>\<close> for every
  placemark. With Python's float texts \<^verbatim>\<open>45.6\<close>, \<^verbatim>\<open>12.3\<close> and \<^verbatim>\<open>7.8\<close>, the placemark
  with lat = 12.3, lon = 45.6, alt = 7.8 gives exactly \<^verbatim>\<open>45.6,12.3,7.8\<close>.
\<close>

theorem build_kml_coordinates:
  "coords E pm = float_text E (lon pm) @ '','' @ float_text E (lat pm)
       @ (case alt pm of None \<Rightarrow> [] | Some a \<Rightarrow> '','' @ float_text E a)
   \<and> (pm \<in> set pms \<longrightarrow>
        (\<exists>pre post. build_kml E pms doc
            = pre @ ''<coordinates>'' @ coords E pm @ ''</coordinates>'' @ post))
   \<and> (float_text E 45.6 = ''45.6'' \<and> float_text E 12.3 = ''12.3''
        \<and> float_text E 7.8 = ''7.8''
        \<longrightarrow> coords E \<lparr>name = n, lat = 12.3, lon = 45.6, alt = Some 7.8, desc = d\<rparr>
              = ''45.6,12.3,7.8'')"
  using coords_eq [of E pm] build_kml_coords [of pm pms E doc]
  by (simp add: coords_def)

theorem build_kml_coordinates_witness:
  "sample_placemark \<in> set [sample_placemark]
   \<and> float_text sample_env 45.6 = ''45.6'' \<and> float_text sample_env 12.3 = ''12.3''
   \<and> float_text sample_env 7.8 = ''7.8''
   \<and> coords sample_env sample_placemark = ''45.6,12.3,7.8''
   \<and> build_kml sample_env [sample_placemark] ''d''
       = kml_header ''d'' @ ''    <Placemark>'' @ newline
         @ ''      <name>a.jpg</name>'' @ newline
         @ ''      <description>a.jpg</description>'' @ newline
         @ ''      <Point><coordinates>45.6,12.3,7.8</coordinates></Point>'' @ newline
         @ ''    </Placemark>'' @ newline @ kml_footer"
proof -
  have ft: "float_text sample_env 45.6 = ''45.6''" "float_text sample_env 12.3 = ''12.3''"
      "float_text sample_env 7.8 = ''7.8''"
    by (simp_all add: sample_env_def)
  have c: "coords sample_env sample_placemark = ''45.6,12.3,7.8''"
    using build_kml_coordinates [where E = sample_env and n = "''a.jpg''" and d = "''a.jpg''"
        and pm = sample_placemark and pms = "[sample_placemark]"] ft
    by (simp add: sample_placemark_def)
  have esc: "xml_escape ''a.jpg'' = ''a.jpg''"
    by (simp add: xml_escape_map xml_entity_def)
  have "build_kml sample_env [sample_placemark] ''d''
       = kml_header ''d'' @ ''    <Placemark>'' @ newline
         @ ''      <name>a.jpg</name>'' @ newline
         @ ''      <description>a.jpg</description>'' @ newline
         @ ''      <Point><coordinates>45.6,12.3,7.8</coordinates></Point>'' @ newline
         @ ''    </Placemark>'' @ newline @ kml_footer"
    using c esc by (simp add: build_kml_def body_part_def sample_placemark_def)
  then show ?thesis
    using ft c by simp
qed

subsection \<open>One turn of the scan\<close>

lemma scan_file_placemark:
  "lower (path_suffix (path_join dirpath (fname f))) \<in> set IMG_EXTS \<Longrightarrow>
   file_gps E (path_join dirpath (fname f)) f = Some (la, lo, al) \<Longrightarrow>
   relative_to (path_join dirpath (fname f)) fld = Inr rel \<Longrightarrow>
   scan_file E fld dirpath st f =
     st\<lparr>total := total st + 1,
        placemarks := placemarks st
          @ [\<lparr>name = path_name (path_join dirpath (fname f)), lat = la, lon = lo, alt = al,
              desc = rel\<rparr>],
        with_gps := with_gps st + 1\<rparr>"
  by (simp add: scan_file_def Let_def)

lemma scan_file_skipped:
  "lower (path_suffix (path_join dirpath (fname f))) \<in> set IMG_EXTS \<Longrightarrow>
   file_gps E (path_join dirpath (fname f)) f = None \<Longrightarrow>
   scan_file E fld dirpath st f = st\<lparr>total := total st + 1, skipped := skipped st + 1\<rparr>"
  by (simp add: scan_file_def Let_def)

lemma scan_file_warned:
  "lower (path_suffix (path_join dirpath (fname f))) \<in> set IMG_EXTS \<Longrightarrow>
   file_gps E (path_join dirpath (fname f)) f = Some g \<Longrightarrow>
   relative_to (path_join dirpath (fname f)) fld = Inl e \<Longrightarrow>
   scan_file E fld dirpath st f =
     st\<lparr>total := total st + 1, skipped := skipped st + 1,
        warnings := warnings st
          @ [''[WARN] '' @ path_join dirpath (fname f) @ '': '' @ error_text E e]\<rparr>"
  by (cases g) (simp add: scan_file_def Let_def)

lemma scan_file_other:
  "lower (path_suffix (path_join dirpath (fname f))) \<notin> set IMG_EXTS \<Longrightarrow>
   scan_file E fld dirpath st f = st"
  by (simp add: scan_file_def Let_def)

lemma scan_file_cases:
  "scan_file E fld dirpath st f = st
   \<or> scan_file E fld dirpath st f = st\<lparr>total := total st + 1, skipped := skipped st + 1\<rparr>
   \<or> (\<exists>w. scan_file E fld dirpath st f =
         st\<lparr>total := total st + 1, skipped := skipped st + 1, warnings := w\<rparr>)
   \<or> (\<exists>pm. scan_file E fld dirpath st f =
         st\<lparr>total := total st + 1, placemarks := placemarks st @ [pm],
            with_gps := with_gps st + 1\<rparr>)"
  by (auto simp: scan_file_def Let_def split: option.splits sum.splits)

lemma scan_file_counts:
  assumes "lower (path_suffix (path_join dirpath (fname f))) \<in> set IMG_EXTS"
  shows "total (scan_file E fld dirpath st f) = total st + 1
     \<and> (with_gps (scan_file E fld dirpath st f) = with_gps st + 1
          \<and> skipped (scan_file E fld dirpath st f) = skipped st
        \<or> with_gps (scan_file E fld dirpath st f) = with_gps st
          \<and> skipped (scan_file E fld dirpath st f) = skipped st + 1)"
  using assms by (auto simp: scan_file_def Let_def split: option.splits sum.splits)

subsection \<open>The sample files\<close>

lemma sample_suffixes:
  "lower (path_suffix (path_join ''/photos'' ''a.jpg'')) = ''.jpg''"
  "lower (path_suffix (path_join ''/photos'' ''b.JPG'')) = ''.jpg''"
  "lower (path_suffix (path_join ''/other'' ''b.JPG'')) = ''.jpg''"
  "lower (path_suffix (path_join ''/photos'' ''c.jpg'')) = ''.jpg''"
  "lower (path_suffix (path_join ''/photos'' ''d.tiff'')) = ''.tiff''"
  "lower (path_suffix (path_join ''/photos'' ''e.HEIC'')) = ''.heic''"
  "lower (path_suffix (path_join ''/photos'' ''notes.txt'')) = ''.txt''"
  by (simp_all add: lower_def path_suffix_def path_name_def path_join_def lower_char_def Let_def)

lemma sample_exts:
  "''.jpg'' \<in> set IMG_EXTS" "''.tiff'' \<in> set IMG_EXTS" "''.heic'' \<in> set IMG_EXTS"
  "''.txt'' \<notin> set IMG_EXTS"
  by (simp_all add: IMG_EXTS_def)

lemma sample_names:
  "fname plain_photo = ''a.jpg''" "fname raw_photo = ''b.JPG''" "fname broken_photo = ''c.jpg''"
  "fname garbled_photo = ''d.tiff''" "fname heic_photo = ''e.HEIC''"
  "fname notes_file = ''notes.txt''"
  by (simp_all add: plain_photo_def raw_photo_def broken_photo_def garbled_photo_def
      heic_photo_def notes_file_def)

lemma sample_relative:
  "relative_to (path_join ''/photos'' ''b.JPG'') ''/photos'' = Inr ''b.JPG''"
  "relative_to (path_join ''/other'' ''b.JPG'') ''/photos'' = Inl ValueError"
  "relative_to (path_join ''/photos'' ''e.HEIC'') ''/photos'' = Inr ''e.HEIC''"
  by (simp_all add: relative_to_def path_join_def)

lemma sample_raw:
  "extract_gps_from_piexif_bytes sample_env sample_blob = Some (10.5, - 20.25, Some (- 100))"
  by (simp add: extract_gps_from_piexif_bytes_def extract_gps_from_piexif_bytes_try_def
      sample_env_def sample_blob_def far_blob_def sample_gps_ifd_def ref_letter_def dict_get_def
      get_or_none_def dms_value_def dms_to_deg_seq rational_to_float_small_pair altitude_def)

lemma decimal_small:
  "decimal 0 = ''0''" "decimal 1 = ''1''" "decimal (Suc 0) = ''1''" "decimal 2 = ''2''"
  by (simp_all add: decimal.simps)

subsection \<open>Metadata Resolver\<close>

lemma dict_of_exif_no_raw: "dict_get (dict_of_exif ex) RAW_EXIF_BYTES = None"
  by (force simp: dict_get_def dict_of_exif_def RAW_EXIF_BYTES_def map_of_eq_None_iff)

lemma extract_empty: "extract_gps_from_pil_exif E [] = None"
  by (simp add: extract_gps_from_pil_exif_def)

lemma dict_get_Nil: "dict_get [] k = None"
  by (simp add: dict_get_def)

lemma dict_get_single: "dict_get [(k, v)] k = Some v"
  by (simp add: dict_get_def)

lemma pil_no_gps_entry:
  "dict_get exif (KInt 34853) = None \<Longrightarrow> extract_gps_from_pil_exif E exif = None"
  by (simp add: extract_gps_from_pil_exif_def TAGS_get_GPSInfo_def)

lemma file_gps_spec:
  "file_gps E p f =
     (case opened f of
        Inl e \<Rightarrow> None
      | Inr im \<Rightarrow>
         (case getexif im of
            Inl e \<Rightarrow> None
          | Inr ex \<Rightarrow>
             (case extract_gps_from_pil_exif E (dict_of_exif ex) of
                Some g \<Rightarrow> Some g
              | None \<Rightarrow>
                 (if truthy (raw_exif_bytes E p f im)
                  then extract_gps_from_piexif_bytes E (raw_exif_bytes E p f im)
                  else None))))"
  by (auto simp: file_gps_def get_exif_any_def get_exif_any_try_def Let_def
        dict_of_exif_no_raw extract_empty dict_get_Nil dict_get_single
      split: sum.splits option.splits)

lemma raw_exif_bytes_sources:
  "raw_exif_bytes E p f im =
     (if truthy (info_exif im) then info_exif im
      else if have_pillow_heif E \<and> lower (path_suffix p) \<in> {''.heic'', ''.heif''}
        then (case heif_metadata f of
                Inl e \<Rightarrow> info_exif im
              | Inr mds \<Rightarrow> (case heif_exif mds of None \<Rightarrow> info_exif im | Some d \<Rightarrow> d))
        else info_exif im)"
  by (simp add: raw_exif_bytes_def Let_def)

lemma sample_file_gps:
  "file_gps sample_env (path_join ''/photos'' ''a.jpg'') plain_photo = None"
  "file_gps sample_env (path_join ''/photos'' ''b.JPG'') raw_photo
     = Some (10.5, - 20.25, Some (- 100))"
  "file_gps sample_env (path_join ''/other'' ''b.JPG'') raw_photo
     = Some (10.5, - 20.25, Some (- 100))"
  "file_gps sample_env (path_join ''/photos'' ''c.jpg'') broken_photo = None"
  "file_gps sample_env (path_join ''/photos'' ''e.HEIC'') heic_photo
     = Some (10.5, - 20.25, Some (- 100))"
proof -
  have blob: "truthy sample_blob" "have_pillow_heif sample_env"
    by (simp_all add: sample_blob_def sample_env_def)
  show "file_gps sample_env (path_join ''/photos'' ''a.jpg'') plain_photo = None"
    by (simp add: file_gps_spec plain_photo_def extract_gps_from_pil_exif_None
          raw_exif_bytes_def sample_suffixes)
  show "file_gps sample_env (path_join ''/photos'' ''b.JPG'') raw_photo
      = Some (10.5, - 20.25, Some (- 100))"
    using blob
    by (simp add: file_gps_spec raw_photo_def extract_gps_from_pil_exif_None
          raw_exif_bytes_def sample_raw)
  show "file_gps sample_env (path_join ''/other'' ''b.JPG'') raw_photo
      = Some (10.5, - 20.25, Some (- 100))"
    using blob
    by (simp add: file_gps_spec raw_photo_def extract_gps_from_pil_exif_None
          raw_exif_bytes_def sample_raw)
  show "file_gps sample_env (path_join ''/photos'' ''c.jpg'') broken_photo = None"
    by (simp add: file_gps_spec broken_photo_def)
  show "file_gps sample_env (path_join ''/photos'' ''e.HEIC'') heic_photo
      = Some (10.5, - 20.25, Some (- 100))"
    using blob
    by (simp add: file_gps_spec heic_photo_def extract_gps_from_pil_exif_None
          raw_exif_bytes_def sample_suffixes heif_exif_def sample_raw)
qed

lemma sample_failures:
  "get_exif_any_try sample_env (path_join ''/photos'' ''c.jpg'') broken_photo
     = Inl (LibraryError ''cannot identify image file'')"
  "get_exif_any sample_env (path_join ''/photos'' ''d.tiff'') garbled_photo
     = [(RAW_EXIF_BYTES, PBytes ''junk'')]"
  "extract_gps_from_piexif_bytes_try sample_env (PBytes ''junk'')
     = Inl (LibraryError ''unpack requires a buffer'')"
  by (simp_all add: get_exif_any_def get_exif_any_try_def broken_photo_def garbled_photo_def
      extract_gps_from_pil_exif_None raw_exif_bytes_def dict_of_exif_def
      extract_gps_from_piexif_bytes_try_def sample_env_def sample_blob_def far_blob_def)

lemma file_gps_no_entry:
  assumes "opened f = Inr im" and "getexif im = Inr ex"
    and "dict_get (dict_of_exif ex) (KInt 34853) = None"
  shows "file_gps E p f =
     (if truthy (raw_exif_bytes E p f im)
      then extract_gps_from_piexif_bytes E (raw_exif_bytes E p f im) else None)"
  using assms by (simp add: file_gps_spec pil_no_gps_entry)

lemma sample_try:
  "extract_gps_from_piexif_bytes_try sample_env sample_blob
     = Inr (Some (10.5, - 20.25, Some (- 100)))"
  "extract_gps_from_piexif_bytes_try no_piexif_env sample_blob
     = Inr (Some (10.5, - 20.25, Some (- 100)))"
  by (simp_all add: extract_gps_from_piexif_bytes_try_def no_piexif_env_def
      sample_env_def sample_blob_def far_blob_def sample_gps_ifd_def ref_letter_def dict_get_def
      get_or_none_def dms_value_def dms_to_deg_seq rational_to_float_small_pair altitude_def)

lemma no_piexif_gps:
  "file_gps no_piexif_env (path_join ''/photos'' ''b.JPG'') raw_photo = None"
  by (simp add: file_gps_spec raw_photo_def extract_gps_from_pil_exif_None
        extract_gps_from_piexif_bytes_def no_piexif_env_def)

text \<open>
  C2, as amended. A file whose image cannot be opened or whose tag dictionary cannot be
  read has no coordinate. For a file whose tag dictionary has no GPS entry, the raw EXIF
  bytes are taken from the image's \<^verbatim>\<open>info\<close> or, when there are none and the file is
  HEIC/HEIF with pillow-heif present, from the first \<^verbatim>\<open>Exif\<close> metadata block with data;
  with such bytes the result is the raw-bytes extraction on them, which is nothing when
  piexif is not installed; without such bytes there is no coordinate. So with piexif
  installed, a file of this kind whose raw bytes hold a coordinate gets that coordinate,
  and the scan appends its placemark. What the resolver does with a tag dictionary that
  has a GPS entry is left out here (see C4).
\<close>

theorem resolver_fallback:
  "(opened f = Inl e \<or> (opened f = Inr im \<and> getexif im = Inl e) \<longrightarrow> file_gps E p f = None)
   \<and> (opened f = Inr im \<and> getexif im = Inr ex
        \<and> dict_get (dict_of_exif ex) (KInt 34853) = None \<longrightarrow>
        (truthy (raw_exif_bytes E p f im) \<longrightarrow>
           file_gps E p f = extract_gps_from_piexif_bytes E (raw_exif_bytes E p f im))
        \<and> (\<not> truthy (raw_exif_bytes E p f im) \<longrightarrow> file_gps E p f = None)
        \<and> (\<not> have_piexif E \<longrightarrow> file_gps E p f = None)
        \<and> (have_piexif E \<and> truthy (raw_exif_bytes E p f im)
             \<and> extract_gps_from_piexif_bytes_try E (raw_exif_bytes E p f im)
                 = Inr (Some (la, lo, al)) \<longrightarrow>
           file_gps E p f = Some (la, lo, al)))
   \<and> raw_exif_bytes E p f im =
     (if truthy (info_exif im) then info_exif im
      else if have_pillow_heif E \<and> lower (path_suffix p) \<in> {''.heic'', ''.heif''}
        then (case heif_metadata f of
                Inl e \<Rightarrow> info_exif im
              | Inr mds \<Rightarrow> (case heif_exif mds of None \<Rightarrow> info_exif im | Some d \<Rightarrow> d))
        else info_exif im)
   \<and> (lower (path_suffix (path_join dirpath (fname f))) \<in> set IMG_EXTS
        \<and> file_gps E (path_join dirpath (fname f)) f = Some (la, lo, al)
        \<and> relative_to (path_join dirpath (fname f)) fld = Inr rel
        \<longrightarrow> scan_file E fld dirpath st f =
             st\<lparr>total := total st + 1,
                placemarks := placemarks st
                  @ [\<lparr>name = path_name (path_join dirpath (fname f)), lat = la, lon = lo,
                      alt = al, desc = rel\<rparr>],
                with_gps := with_gps st + 1\<rparr>)"
proof -
  have unreadable: "opened f = Inl e \<or> (opened f = Inr im \<and> getexif im = Inl e)
      \<longrightarrow> file_gps E p f = None"
    by (auto simp: file_gps_spec)
  have fallback: "opened f = Inr im \<and> getexif im = Inr ex
        \<and> dict_get (dict_of_exif ex) (KInt 34853) = None \<longrightarrow>
        (truthy (raw_exif_bytes E p f im) \<longrightarrow>
           file_gps E p f = extract_gps_from_piexif_bytes E (raw_exif_bytes E p f im))
        \<and> (\<not> truthy (raw_exif_bytes E p f im) \<longrightarrow> file_gps E p f = None)
        \<and> (\<not> have_piexif E \<longrightarrow> file_gps E p f = None)
        \<and> (have_piexif E \<and> truthy (raw_exif_bytes E p f im)
             \<and> extract_gps_from_piexif_bytes_try E (raw_exif_bytes E p f im)
                 = Inr (Some (la, lo, al)) \<longrightarrow>
           file_gps E p f = Some (la, lo, al))"
    by (auto simp: file_gps_no_entry extract_gps_from_piexif_bytes_def)
  have placemark: "lower (path_suffix (path_join dirpath (fname f))) \<in> set IMG_EXTS
        \<and> file_gps E (path_join dirpath (fname f)) f = Some (la, lo, al)
        \<and> relative_to (path_join dirpath (fname f)) fld = Inr rel
        \<longrightarrow> scan_file E fld dirpath st f =
             st\<lparr>total := total st + 1,
                placemarks := placemarks st
                  @ [\<lparr>name = path_name (path_join dirpath (fname f)), lat = la, lon = lo,
                      alt = al, desc = rel\<rparr>],
                with_gps := with_gps st + 1\<rparr>"
    using scan_file_placemark [of dirpath f E la lo al fld rel st] by blast
  show ?thesis
    by (intro conjI)
       (rule unreadable, rule fallback, rule raw_exif_bytes_sources, rule placemark)
qed

theorem resolver_fallback_witness:
  "opened broken_photo = Inl (LibraryError ''cannot identify image file'')
   \<and> file_gps sample_env ''/photos/c.jpg'' broken_photo = None
   \<and> opened raw_photo = Inr \<lparr>getexif = Inr [(271, PStr ''Canon'')], info_exif = sample_blob\<rparr>
   \<and> dict_get (dict_of_exif [(271, PStr ''Canon'')]) (KInt 34853) = None
   \<and> have_piexif sample_env \<and> truthy sample_blob
   \<and> extract_gps_from_piexif_bytes_try sample_env sample_blob
       = Inr (Some (10.5, - 20.25, Some (- 100)))
   \<and> file_gps sample_env ''/photos/b.JPG'' raw_photo = Some (10.5, - 20.25, Some (- 100))
   \<and> scan_file sample_env ''/photos'' ''/photos'' scan_start raw_photo
       = \<lparr>placemarks = [\<lparr>name = ''b.JPG'', lat = 10.5, lon = - 20.25, alt = Some (- 100),
                          desc = ''b.JPG''\<rparr>],
          total = 1, with_gps = 1, skipped = 0, warnings = []\<rparr>
   \<and> opened heic_photo = Inr \<lparr>getexif = Inr [], info_exif = PNone\<rparr>
   \<and> file_gps sample_env ''/photos/e.HEIC'' heic_photo = Some (10.5, - 20.25, Some (- 100))
   \<and> opened plain_photo = Inr \<lparr>getexif = Inr [], info_exif = PNone\<rparr>
   \<and> file_gps sample_env ''/photos/a.jpg'' plain_photo = None
   \<and> \<not> have_piexif no_piexif_env
   \<and> file_gps no_piexif_env ''/photos/b.JPG'' raw_photo = None"
proof -
  let ?im = "\<lparr>getexif = Inr [(271, PStr ''Canon'')], info_exif = sample_blob\<rparr>"
  let ?hm = "\<lparr>getexif = Inr [], info_exif = PNone\<rparr>"
  have pj: "path_join ''/photos'' ''b.JPG'' = ''/photos/b.JPG''"
      "path_join ''/photos'' ''e.HEIC'' = ''/photos/e.HEIC''"
      "path_join ''/photos'' ''a.jpg'' = ''/photos/a.jpg''"
    by (simp_all add: path_join_def)
  have o: "opened raw_photo = Inr ?im" "opened heic_photo = Inr ?hm"
      "heif_metadata heic_photo
         = Inr [(PStr ''XMP'', PBytes ''<x:xmpmeta/>''), (PStr ''Exif'', sample_blob)]"
      "opened plain_photo = Inr ?hm"
      "heif_metadata plain_photo = Inl (LibraryError ''not a HEIF file'')"
      "opened broken_photo = Inl (LibraryError ''cannot identify image file'')"
    by (simp_all add: raw_photo_def heic_photo_def plain_photo_def broken_photo_def)
  have nogps: "dict_get (dict_of_exif [(271, PStr ''Canon'')]) (KInt 34853) = None"
      "dict_get (dict_of_exif []) (KInt 34853) = None"
    by (simp_all add: dict_get_def dict_of_exif_def)
  have ge: "getexif ?im = Inr [(271, PStr ''Canon'')]" "getexif ?hm = Inr []"
    by simp_all
  have tb: "truthy sample_blob" "\<not> truthy PNone" by (simp_all add: sample_blob_def)
  have hp: "have_pillow_heif sample_env" "have_piexif sample_env" "\<not> have_piexif no_piexif_env"
    by (simp_all add: sample_env_def no_piexif_env_def)
  have hx: "heif_exif [(PStr ''XMP'', PBytes ''<x:xmpmeta/>''), (PStr ''Exif'', sample_blob)]
      = Some sample_blob"
    using tb by (simp add: heif_exif_def)
  have sf: "lower (path_suffix ''/photos/e.HEIC'') = ''.heic''"
      "lower (path_suffix ''/photos/a.jpg'') = ''.jpg''"
    using sample_suffixes(6) sample_suffixes(1) by (simp_all add: pj)
  note w0 = resolver_fallback [where E = sample_env and p = "''/photos/c.jpg''"
      and f = broken_photo and e = "LibraryError ''cannot identify image file''"]
  note w1 = resolver_fallback [where E = sample_env and p = "''/photos/b.JPG''"
      and f = raw_photo and im = ?im and ex = "[(271, PStr ''Canon'')]"
      and la = "10.5" and lo = "- 20.25" and al = "Some (- 100)"
      and dirpath = "''/photos''" and fld = "''/photos''" and rel = "''b.JPG''"
      and st = scan_start]
  note w2 = resolver_fallback [where E = sample_env and p = "''/photos/e.HEIC''"
      and f = heic_photo and im = ?hm and ex = "[]"
      and la = "10.5" and lo = "- 20.25" and al = "Some (- 100)"]
  note w3 = resolver_fallback [where E = sample_env and p = "''/photos/a.jpg''"
      and f = plain_photo and im = ?hm and ex = "[]"]
  note w4 = resolver_fallback [where E = no_piexif_env and p = "''/photos/b.JPG''"
      and f = raw_photo and im = ?im and ex = "[(271, PStr ''Canon'')]"]
  have g0: "file_gps sample_env ''/photos/c.jpg'' broken_photo = None"
    using w0 o(6) by blast
  have r1: "raw_exif_bytes sample_env ''/photos/b.JPG'' raw_photo ?im = sample_blob"
    using w1 tb by simp
  have r2: "raw_exif_bytes sample_env ''/photos/e.HEIC'' heic_photo ?hm = sample_blob"
    using w2 hp sf o(3) hx by simp
  have r3: "raw_exif_bytes sample_env ''/photos/a.jpg'' plain_photo ?hm = PNone"
    using w3 hp sf o(5) by simp
  have g1: "file_gps sample_env ''/photos/b.JPG'' raw_photo = Some (10.5, - 20.25, Some (- 100))"
    using w1 [unfolded r1] o(1) ge(1) nogps(1) tb(1) hp(2) sample_try(1) by blast
  have g2: "file_gps sample_env ''/photos/e.HEIC'' heic_photo = Some (10.5, - 20.25, Some (- 100))"
    using w2 [unfolded r2] o(2) ge(2) nogps(2) tb(1) hp(2) sample_try(1) by blast
  have g3: "file_gps sample_env ''/photos/a.jpg'' plain_photo = None"
    using w3 [unfolded r3] o(4) ge(2) nogps(2) tb(2) by blast
  have g4: "file_gps no_piexif_env ''/photos/b.JPG'' raw_photo = None"
    using w4 o(1) ge(1) nogps(1) hp(3) by blast
  have s1: "scan_file sample_env ''/photos'' ''/photos'' scan_start raw_photo
       = \<lparr>placemarks = [\<lparr>name = ''b.JPG'', lat = 10.5, lon = - 20.25, alt = Some (- 100),
                          desc = ''b.JPG''\<rparr>],
          total = 1, with_gps = 1, skipped = 0, warnings = []\<rparr>"
    using w1 g1 sample_suffixes(2) sample_exts(1) sample_relative(1)
    by (simp add: sample_names pj scan_start_def) (simp add: path_name_def)
  show ?thesis
    using o(6) g0 o(1) nogps(1) hp(2) tb(1) sample_try(1) g1 s1 o(2) g2 o(4) g3 hp(3) g4
    by (intro conjI) assumption+
qed

text \<open>
  The fallback as first claimed fails without piexif: the tag dictionary has no GPS
  entry, the raw EXIF bytes hold a coordinate, and the file is skipped.
\<close>

theorem fallback_needs_parser:
  "dict_get (dict_of_exif [(271, PStr ''Canon'')]) (KInt 34853) = None
   \<and> opened raw_photo = Inr \<lparr>getexif = Inr [(271, PStr ''Canon'')], info_exif = sample_blob\<rparr>
   \<and> extract_gps_from_piexif_bytes_try no_piexif_env sample_blob
       = Inr (Some (10.5, - 20.25, Some (- 100)))
   \<and> scan_file no_piexif_env ''/photos'' ''/photos'' scan_start raw_photo
       = \<lparr>placemarks = [], total = 1, with_gps = 0, skipped = 1, warnings = []\<rparr>"
proof -
  have "scan_file no_piexif_env ''/photos'' ''/photos'' scan_start raw_photo
       = \<lparr>placemarks = [], total = 1, with_gps = 0, skipped = 1, warnings = []\<rparr>"
    using scan_file_skipped [of "''/photos''" raw_photo no_piexif_env "''/photos''" scan_start]
    by (simp add: sample_names sample_suffixes sample_exts no_piexif_gps scan_start_def)
  then show ?thesis
    using sample_try(2)
    by (simp add: raw_photo_def dict_get_def dict_of_exif_def)
qed

subsection \<open>Range of the coordinates\<close>

lemma and_then_Inr_iff: "and_then x f = Inr y \<longleftrightarrow> (\<exists>v. x = Inr v \<and> f v = Inr y)"
  by (cases x) auto

lemma except_none_Some: "except_none r = Some z \<longleftrightarrow> r = Inr (Some z)"
  by (cases r) auto

lemma dms_sum_abs:
  "dms_sum a b c r = Some z \<Longrightarrow> \<exists>w. dms_sum a b c PNone = Some w \<and> \<bar>z\<bar> = \<bar>w\<bar>"
  by (cases a; cases b; cases c) (auto simp: Let_def split: if_splits)

lemma dms_to_deg_abs:
  assumes "dms_to_deg E v r = Some z"
  shows "\<exists>w. dms_to_deg E v PNone = Some w \<and> \<bar>z\<bar> = \<bar>w\<bar>"
proof -
  from assms have t: "truthy v" and
    "\<exists>n. py_len v = Inr n \<and> n = 3 \<and> (\<exists>a. py_getitem v 0 = Inr a \<and> (\<exists>b. py_getitem v 1 = Inr b
       \<and> (\<exists>c. py_getitem v 2 = Inr c
       \<and> dms_sum (rational_to_float E a) (rational_to_float E b) (rational_to_float E c) r = Some z)))"
    by (auto simp: dms_to_deg_def dms_to_deg_try_def except_none_Some and_then_Inr_iff
        split: if_splits)
  then obtain a b c where
    g: "py_len v = Inr 3" "py_getitem v 0 = Inr a" "py_getitem v 1 = Inr b" "py_getitem v 2 = Inr c"
    and s: "dms_sum (rational_to_float E a) (rational_to_float E b) (rational_to_float E c) r = Some z"
    by auto
  from dms_sum_abs [OF s] obtain w where
    w: "dms_sum (rational_to_float E a) (rational_to_float E b) (rational_to_float E c) PNone = Some w"
      "\<bar>z\<bar> = \<bar>w\<bar>" by blast
  have "dms_to_deg E v PNone = Some w"
    using t g w(1) by (simp add: dms_to_deg_def dms_to_deg_try_def)
  with w(2) show ?thesis by blast
qed

lemma lat_lon_alt_Some:
  "lat_lon_alt a b c = Some (la, lo, al) \<longleftrightarrow> a = Some la \<and> b = Some lo \<and> c = al"
  by (cases a; cases b) auto

lemma raw_path_components:
  assumes "extract_gps_from_piexif_bytes E blob = Some (la, lo, al)"
    and "piexif_load E blob = Inr ifd"
  shows "\<exists>r1 r2. dms_to_deg E (get_or_none ifd (KInt 2)) r1 = Some la
      \<and> dms_to_deg E (get_or_none ifd (KInt 4)) r2 = Some lo"
  using assms
  by (auto simp: extract_gps_from_piexif_bytes_def extract_gps_from_piexif_bytes_try_def
      except_none_Some and_then_Inr_iff lat_lon_alt_Some split: if_splits)

text \<open>
  C5, as amended. The extractors check no range. A coordinate produced by the raw-bytes
  path has the absolute values of latitude and longitude equal to those of the unsigned
  conversions \<open>x\<close> and \<open>y\<close> of the latitude and longitude entries; so the latitude is in
  [-90, 90] and the longitude in [-180, 180] whenever \<open>x\<close> is at most 90 and \<open>y\<close> at most
  180 in absolute value.
\<close>

theorem raw_path_range:
  "extract_gps_from_piexif_bytes E blob = Some (la, lo, al) \<and> piexif_load E blob = Inr ifd
   \<and> dms_to_deg E (get_or_none ifd (KInt 2)) PNone = Some x
   \<and> dms_to_deg E (get_or_none ifd (KInt 4)) PNone = Some y
   \<longrightarrow> \<bar>la\<bar> = \<bar>x\<bar> \<and> \<bar>lo\<bar> = \<bar>y\<bar>
       \<and> (\<bar>x\<bar> \<le> 90 \<and> \<bar>y\<bar> \<le> 180 \<longrightarrow> - 90 \<le> la \<and> la \<le> 90 \<and> - 180 \<le> lo \<and> lo \<le> 180)"
proof (intro impI, elim conjE)
  assume ex: "extract_gps_from_piexif_bytes E blob = Some (la, lo, al)"
    and ld: "piexif_load E blob = Inr ifd"
    and x: "dms_to_deg E (get_or_none ifd (KInt 2)) PNone = Some x"
    and y: "dms_to_deg E (get_or_none ifd (KInt 4)) PNone = Some y"
  from raw_path_components [OF ex ld] obtain r1 r2 where
    c: "dms_to_deg E (get_or_none ifd (KInt 2)) r1 = Some la"
       "dms_to_deg E (get_or_none ifd (KInt 4)) r2 = Some lo" by blast
  from dms_to_deg_abs [OF c(1)] x have la: "\<bar>la\<bar> = \<bar>x\<bar>" by auto
  from dms_to_deg_abs [OF c(2)] y have lo: "\<bar>lo\<bar> = \<bar>y\<bar>" by auto
  show "\<bar>la\<bar> = \<bar>x\<bar> \<and> \<bar>lo\<bar> = \<bar>y\<bar>
       \<and> (\<bar>x\<bar> \<le> 90 \<and> \<bar>y\<bar> \<le> 180 \<longrightarrow> - 90 \<le> la \<and> la \<le> 90 \<and> - 180 \<le> lo \<and> lo \<le> 180)"
    using la lo by linarith
qed

theorem raw_path_range_witness:
  "extract_gps_from_piexif_bytes sample_env sample_blob = Some (10.5, - 20.25, Some (- 100))
   \<and> piexif_load sample_env sample_blob = Inr sample_gps_ifd
   \<and> dms_to_deg sample_env (get_or_none sample_gps_ifd (KInt 2)) PNone = Some 10.5
   \<and> dms_to_deg sample_env (get_or_none sample_gps_ifd (KInt 4)) PNone = Some 20.25
   \<and> \<bar>10.5 :: real\<bar> \<le> 90 \<and> \<bar>20.25 :: real\<bar> \<le> 180
   \<and> - 90 \<le> (10.5 :: real) \<and> (10.5 :: real) \<le> 90
   \<and> - 180 \<le> (- 20.25 :: real) \<and> (- 20.25 :: real) \<le> 180"
proof -
  have l: "piexif_load sample_env sample_blob = Inr sample_gps_ifd"
    by (simp add: sample_env_def)
  have d: "dms_to_deg sample_env (get_or_none sample_gps_ifd (KInt 2)) PNone = Some 10.5"
      "dms_to_deg sample_env (get_or_none sample_gps_ifd (KInt 4)) PNone = Some 20.25"
    by (simp_all add: sample_gps_ifd_def get_or_none_def dict_get_def dms_value_def
        dms_to_deg_seq rational_to_float_small_pair)
  show ?thesis
    using raw_path_range [of sample_env sample_blob "10.5" "- 20.25" "Some (- 100)"
        sample_gps_ifd "10.5" "20.25"] sample_raw l d
    by simp
qed

text \<open>
  The range as first claimed fails on the raw-bytes path: a latitude entry of 200 degrees
  comes out as the latitude 200.
\<close>

theorem raw_path_out_of_range:
  "extract_gps_from_piexif_bytes sample_env far_blob = Some (200, 10, None)
   \<and> \<not> ((200::real) \<le> 90)"
  by (simp add: extract_gps_from_piexif_bytes_def extract_gps_from_piexif_bytes_try_def
      sample_env_def sample_blob_def far_blob_def far_gps_ifd_def ref_letter_def dict_get_def
      get_or_none_def dms_value_def dms_to_deg_seq rational_to_float_small_pair altitude_def)

subsection \<open>Scan Orchestrator\<close>

lemma get_exif_any_try_error:
  "get_exif_any_try E p f = Inl e \<Longrightarrow> file_gps E p f = None"
  by (simp add: file_gps_def get_exif_any_def dict_get_Nil extract_empty)

lemma raw_parse_error:
  "get_exif_any E p f = [(RAW_EXIF_BYTES, raw)] \<Longrightarrow>
   extract_gps_from_piexif_bytes_try E raw = Inl e \<Longrightarrow> file_gps E p f = None"
  by (simp add: file_gps_def dict_get_single extract_gps_from_piexif_bytes_def)

lemma scan_broken:
  "scan_file sample_env ''/photos'' ''/photos'' scan_start broken_photo
     = \<lparr>placemarks = [], total = 1, with_gps = 0, skipped = 1, warnings = []\<rparr>"
  using scan_file_skipped [of "''/photos''" broken_photo sample_env "''/photos''" scan_start]
  by (simp add: sample_names sample_suffixes sample_exts sample_file_gps scan_start_def)

lemma scan_plain:
  "scan_file sample_env ''/photos'' ''/photos'' st plain_photo
     = st\<lparr>total := total st + 1, skipped := skipped st + 1\<rparr>"
  using scan_file_skipped [of "''/photos''" plain_photo sample_env "''/photos''" st]
  by (simp add: sample_names sample_suffixes sample_exts sample_file_gps)

lemma scan_notes:
  "scan_file sample_env ''/photos'' ''/photos'' st notes_file = st"
  using scan_file_other [of "''/photos''" notes_file sample_env "''/photos''" st]
  by (simp add: sample_names sample_suffixes sample_exts)

lemma counters_ok_scan_file: "counters_ok st \<Longrightarrow> counters_ok (scan_file E fld dirpath st f)"
  using scan_file_cases [of E fld dirpath st f] by (auto simp: counters_ok_def)

lemma counters_ok_scan_files:
  "counters_ok st \<Longrightarrow> counters_ok (scan_files E fld dirpath st fs)"
  by (induction fs arbitrary: st) (simp_all add: counters_ok_scan_file)

lemma counters_ok_scan_walk: "counters_ok st \<Longrightarrow> counters_ok (scan_walk E fld st ws)"
proof (induction ws arbitrary: st)
  case Nil
  then show ?case by simp
next
  case (Cons w ws)
  obtain dirpath files where w: "w = (dirpath, files)" by (cases w)
  from Cons.prems have "counters_ok (scan_files E fld dirpath st files)"
    by (rule counters_ok_scan_files)
  then show ?case
    unfolding w by (simp add: Cons.IH)
qed

lemma counters_ok_start: "counters_ok scan_start"
  by (simp add: counters_ok_def scan_start_def)

lemma scan_file_no_gps:
  "file_gps E (path_join d (fname f)) f = None \<Longrightarrow>
   placemarks (scan_file E fld d st f) = placemarks st
   \<and> with_gps (scan_file E fld d st f) = with_gps st
   \<and> warnings (scan_file E fld d st f) = warnings st"
  by (simp add: scan_file_def Let_def)

lemma scan_files_no_gps:
  "\<forall>f \<in> set fs. file_gps E (path_join d (fname f)) f = None \<Longrightarrow>
   placemarks (scan_files E fld d st fs) = placemarks st
   \<and> with_gps (scan_files E fld d st fs) = with_gps st
   \<and> warnings (scan_files E fld d st fs) = warnings st"
proof (induction fs arbitrary: st)
  case Nil
  show ?case by simp
next
  case (Cons f fs)
  from Cons.prems have f: "file_gps E (path_join d (fname f)) f = None"
    and rest: "\<forall>f \<in> set fs. file_gps E (path_join d (fname f)) f = None"
    by simp_all
  show ?case
    using Cons.IH [OF rest, of "scan_file E fld d st f"] scan_file_no_gps [OF f, of fld st]
    by simp
qed

lemma scan_walk_no_gps:
  "\<forall>(d, fs) \<in> set ws. \<forall>f \<in> set fs. file_gps E (path_join d (fname f)) f = None \<Longrightarrow>
   placemarks (scan_walk E fld st ws) = placemarks st
   \<and> with_gps (scan_walk E fld st ws) = with_gps st
   \<and> warnings (scan_walk E fld st ws) = warnings st"
proof (induction ws arbitrary: st)
  case Nil
  show ?case by simp
next
  case (Cons w ws)
  obtain d fs where w: "w = (d, fs)" by (cases w)
  from Cons.prems w have here: "\<forall>f \<in> set fs. file_gps E (path_join d (fname f)) f = None"
    and rest: "\<forall>(d, fs) \<in> set ws. \<forall>f \<in> set fs. file_gps E (path_join d (fname f)) f = None"
    by simp_all
  show ?case
    using Cons.IH [OF rest, of "scan_files E fld d st fs"] scan_files_no_gps [OF here, of fld st]
    by (simp add: w)
qed

lemma sample_notes_gps:
  "file_gps sample_env (path_join ''/photos'' ''notes.txt'') notes_file = None"
  by (simp add: file_gps_spec notes_file_def)

text \<open>
  C8. When the folder is a directory and the scan ends without any placemark, \<open>main\<close>
  writes no file, prints nothing on standard output, prints on the error stream (after
  any warnings) the line that nothing was found and the summary with the three counters,
  and returns 4. This is what happens for every folder in which no file yields a
  coordinate, whatever the number of image files scanned: the summary then counts
  every scanned image as skipped.
\<close>

theorem main_no_placemarks:
  "(is_dir w \<and> placemarks (scan_walk E (folder w) scan_start (walk w)) = [] \<longrightarrow>
     main E w =
       \<lparr>exit_code = 4, stdout = [],
        stderr = warnings (scan_walk E (folder w) scan_start (walk w))
          @ [''No geotagged images found. No KML written.'',
             ''Scanned '' @ decimal (total (scan_walk E (folder w) scan_start (walk w)))
               @ '' images; '' @ decimal (with_gps (scan_walk E (folder w) scan_start (walk w)))
               @ '' with GPS; '' @ decimal (skipped (scan_walk E (folder w) scan_start (walk w)))
               @ '' skipped.''],
        written = []\<rparr>)
   \<and> (is_dir w
       \<and> (\<forall>(d, fs) \<in> set (walk w). \<forall>f \<in> set fs. file_gps E (path_join d (fname f)) f = None)
       \<longrightarrow>
     main E w =
       \<lparr>exit_code = 4, stdout = [],
        stderr =
          [''No geotagged images found. No KML written.'',
           ''Scanned '' @ decimal (total (scan_walk E (folder w) scan_start (walk w)))
             @ '' images; 0 with GPS; ''
             @ decimal (total (scan_walk E (folder w) scan_start (walk w))) @ '' skipped.''],
        written = []\<rparr>)"
proof (intro conjI impI)
  assume "is_dir w \<and> placemarks (scan_walk E (folder w) scan_start (walk w)) = []"
  then show "main E w =
       \<lparr>exit_code = 4, stdout = [],
        stderr = warnings (scan_walk E (folder w) scan_start (walk w))
          @ [''No geotagged images found. No KML written.'',
             ''Scanned '' @ decimal (total (scan_walk E (folder w) scan_start (walk w)))
               @ '' images; '' @ decimal (with_gps (scan_walk E (folder w) scan_start (walk w)))
               @ '' with GPS; '' @ decimal (skipped (scan_walk E (folder w) scan_start (walk w)))
               @ '' skipped.''],
        written = []\<rparr>"
    by (simp add: main_def Let_def summary_def)
next
  let ?st = "scan_walk E (folder w) scan_start (walk w)"
  assume a: "is_dir w
       \<and> (\<forall>(d, fs) \<in> set (walk w). \<forall>f \<in> set fs. file_gps E (path_join d (fname f)) f = None)"
  then have same: "placemarks ?st = [] \<and> with_gps ?st = 0 \<and> warnings ?st = []"
    using scan_walk_no_gps [of "walk w" E "folder w" scan_start]
    by (simp add: scan_start_def)
  have "counters_ok ?st"
    by (rule counters_ok_scan_walk [OF counters_ok_start])
  with same have sk: "skipped ?st = total ?st"
    by (simp add: counters_ok_def)
  have z: "decimal 0 = ''0''" by (simp add: decimal.simps)
  show "main E w =
       \<lparr>exit_code = 4, stdout = [],
        stderr =
          [''No geotagged images found. No KML written.'',
           ''Scanned '' @ decimal (total ?st) @ '' images; 0 with GPS; ''
             @ decimal (total ?st) @ '' skipped.''],
        written = []\<rparr>"
    using a same sk z by (simp add: main_def Let_def summary_def)
qed

theorem main_no_placemarks_witness:
  "is_dir (world_of [plain_photo, broken_photo, notes_file])
   \<and> placemarks (scan_walk sample_env ''/photos'' scan_start
        (walk (world_of [plain_photo, broken_photo, notes_file]))) = []
   \<and> file_gps sample_env (path_join ''/photos'' (fname plain_photo)) plain_photo = None
   \<and> file_gps sample_env (path_join ''/photos'' (fname broken_photo)) broken_photo = None
   \<and> file_gps sample_env (path_join ''/photos'' (fname notes_file)) notes_file = None
   \<and> main sample_env (world_of [plain_photo, broken_photo, notes_file]) =
       \<lparr>exit_code = 4, stdout = [],
        stderr = [''No geotagged images found. No KML written.'',
                  ''Scanned 2 images; 0 with GPS; 2 skipped.''],
        written = []\<rparr>"
proof -
  let ?W = "world_of [plain_photo, broken_photo, notes_file]"
  let ?st = "scan_walk sample_env (folder ?W) scan_start (walk ?W)"
  have w: "folder ?W = ''/photos''" "is_dir ?W"
      "walk ?W = [(''/photos'', [plain_photo, broken_photo, notes_file])]"
    by (simp_all add: world_of_def)
  have "scan_walk sample_env ''/photos'' scan_start
        [(''/photos'', [plain_photo, broken_photo, notes_file])]
      = \<lparr>placemarks = [], total = 2, with_gps = 0, skipped = 2, warnings = []\<rparr>"
    using scan_file_skipped [of "''/photos''" broken_photo sample_env "''/photos''"
        "\<lparr>placemarks = [], total = 1, with_gps = 0, skipped = 1, warnings = []\<rparr>"]
    by (simp add: scan_plain scan_notes scan_start_def sample_names
          sample_suffixes sample_exts sample_file_gps)
  then have st: "?st = \<lparr>placemarks = [], total = 2, with_gps = 0, skipped = 2, warnings = []\<rparr>"
    by (simp only: w)
  have none: "file_gps sample_env (path_join ''/photos'' (fname plain_photo)) plain_photo = None"
      "file_gps sample_env (path_join ''/photos'' (fname broken_photo)) broken_photo = None"
      "file_gps sample_env (path_join ''/photos'' (fname notes_file)) notes_file = None"
    by (simp_all add: sample_names sample_file_gps sample_notes_gps)
  then have hyp: "\<forall>(d, fs) \<in> set (walk ?W). \<forall>f \<in> set fs.
      file_gps sample_env (path_join d (fname f)) f = None"
    by (simp add: w(3))
  from main_no_placemarks [of ?W sample_env] w(2) hyp
  have "main sample_env ?W =
       \<lparr>exit_code = 4, stdout = [],
        stderr =
          [''No geotagged images found. No KML written.'',
           ''Scanned '' @ decimal (total ?st) @ '' images; 0 with GPS; ''
             @ decimal (total ?st) @ '' skipped.''],
        written = []\<rparr>"
    by blast
  then have m: "main sample_env ?W =
       \<lparr>exit_code = 4, stdout = [],
        stderr = [''No geotagged images found. No KML written.'',
                  ''Scanned 2 images; 0 with GPS; 2 skipped.''],
        written = []\<rparr>"
    unfolding st by (simp add: decimal_small)
  have "placemarks ?st = []"
    unfolding st by simp
  then show ?thesis
    using w(2) none m by (simp only: w(1) simp_thms)
qed

text \<open>
  C9, as amended. A recognised file whose metadata extraction raises, in opening the
  image or reading its tag dictionary or in parsing its raw EXIF bytes, is counted in
  \<open>total\<close> and in \<open>skipped\<close> and leaves the warnings as they were: the exception ends
  inside the extraction functions. A warning line with the path and the text of the
  exception is added, once, and \<open>skipped\<close> incremented, when an exception reaches the
  handler of the scan itself, which in the model is the case of a failing
  \<^verbatim>\<open>relative_to\<close>. In every case the scan goes on with the remaining files.
\<close>

theorem scan_file_contains_errors:
  "(lower (path_suffix (path_join dirpath (fname f))) \<in> set IMG_EXTS \<longrightarrow>
      (get_exif_any_try E (path_join dirpath (fname f)) f = Inl e
         \<or> (get_exif_any E (path_join dirpath (fname f)) f = [(RAW_EXIF_BYTES, raw)]
             \<and> extract_gps_from_piexif_bytes_try E raw = Inl e) \<longrightarrow>
       scan_file E fld dirpath st f = st\<lparr>total := total st + 1, skipped := skipped st + 1\<rparr>)
    \<and> (file_gps E (path_join dirpath (fname f)) f = Some g
         \<and> relative_to (path_join dirpath (fname f)) fld = Inl e \<longrightarrow>
       scan_file E fld dirpath st f =
         st\<lparr>total := total st + 1, skipped := skipped st + 1,
            warnings := warnings st
              @ [''[WARN] '' @ path_join dirpath (fname f) @ '': '' @ error_text E e]\<rparr>))
   \<and> scan_files E fld dirpath st (f # fs) = scan_files E fld dirpath (scan_file E fld dirpath st f) fs"
  using get_exif_any_try_error [of E "path_join dirpath (fname f)" f e]
    raw_parse_error [of E "path_join dirpath (fname f)" f raw e]
    scan_file_skipped [of dirpath f E fld st]
    scan_file_warned [of dirpath f E g fld e st]
  by auto

theorem scan_file_contains_errors_witness:
  "scan_file sample_env ''/photos'' ''/photos'' scan_start broken_photo
     = \<lparr>placemarks = [], total = 1, with_gps = 0, skipped = 1, warnings = []\<rparr>
   \<and> scan_file sample_env ''/photos'' ''/photos'' scan_start garbled_photo
     = \<lparr>placemarks = [], total = 1, with_gps = 0, skipped = 1, warnings = []\<rparr>
   \<and> scan_file sample_env ''/photos'' ''/other'' scan_start raw_photo
     = \<lparr>placemarks = [], total = 1, with_gps = 0, skipped = 1,
        warnings = [''[WARN] /other/b.JPG: is not in the subpath'']\<rparr>"
proof -
  note w1 = scan_file_contains_errors [where E = sample_env and dirpath = "''/photos''"
      and fld = "''/photos''" and f = broken_photo and st = scan_start
      and e = "LibraryError ''cannot identify image file''"]
  note w2 = scan_file_contains_errors [where E = sample_env and dirpath = "''/photos''"
      and fld = "''/photos''" and f = garbled_photo and st = scan_start
      and raw = "PBytes ''junk''" and e = "LibraryError ''unpack requires a buffer''"]
  note w3 = scan_file_contains_errors [where E = sample_env and dirpath = "''/other''"
      and fld = "''/photos''" and f = raw_photo and st = scan_start
      and g = "(10.5, - 20.25, Some (- 100))" and e = ValueError]
  have et: "error_text sample_env ValueError = ''is not in the subpath''"
    by (simp add: sample_env_def)
  show ?thesis
    using w1 w2 w3 et
    by (simp add: sample_names sample_suffixes sample_exts sample_file_gps sample_failures
          sample_relative scan_start_def)
       (simp add: path_join_def)
qed

text \<open>
  The warning as first claimed is not printed: a file that \<^verbatim>\<open>Image.open\<close> rejects is
  skipped without any line on the error stream.
\<close>

theorem unreadable_file_not_warned:
  "opened broken_photo = Inl (LibraryError ''cannot identify image file'')
   \<and> scan_file sample_env ''/photos'' ''/photos'' scan_start broken_photo
       = \<lparr>placemarks = [], total = 1, with_gps = 0, skipped = 1, warnings = []\<rparr>
   \<and> stderr (main sample_env (world_of [broken_photo]))
       = [''No geotagged images found. No KML written.'',
          ''Scanned 1 images; 0 with GPS; 1 skipped.'']"
  by (simp add: main_def world_of_def scan_broken summary_def decimal_small)
     (simp add: broken_photo_def)

lemma scan_file_counted:
  "total (scan_file E fld d st f) = total st + (if recognised d f then 1 else 0)
   \<and> with_gps (scan_file E fld d st f) = with_gps st + (if placed E fld d f then 1 else 0)
   \<and> skipped (scan_file E fld d st f)
       = skipped st + (if recognised d f \<and> \<not> placed E fld d f then 1 else 0)
   \<and> length (placemarks (scan_file E fld d st f))
       = length (placemarks st) + (if placed E fld d f then 1 else 0)"
  by (auto simp: scan_file_def recognised_def placed_def Let_def split: option.splits sum.splits)

lemma scan_files_counted:
  "total (scan_files E fld d st fs) = total st + length (filter (recognised d) fs)
   \<and> with_gps (scan_files E fld d st fs) = with_gps st + length (filter (placed E fld d) fs)
   \<and> skipped (scan_files E fld d st fs)
       = skipped st + length (filter (\<lambda>f. recognised d f \<and> \<not> placed E fld d f) fs)
   \<and> length (placemarks (scan_files E fld d st fs))
       = length (placemarks st) + length (filter (placed E fld d) fs)"
proof (induction fs arbitrary: st)
  case Nil
  show ?case by simp
next
  case (Cons f fs)
  show ?case
    using Cons.IH [of "scan_file E fld d st f"] scan_file_counted [of E fld d st f]
    by simp
qed

lemma scan_walk_counted:
  "total (scan_walk E fld st ws)
       = total st + length (filter (\<lambda>(d, f). recognised d f) (walk_files ws))
   \<and> with_gps (scan_walk E fld st ws)
       = with_gps st + length (filter (\<lambda>(d, f). placed E fld d f) (walk_files ws))
   \<and> skipped (scan_walk E fld st ws)
       = skipped st
         + length (filter (\<lambda>(d, f). recognised d f \<and> \<not> placed E fld d f) (walk_files ws))
   \<and> length (placemarks (scan_walk E fld st ws))
       = length (placemarks st)
         + length (filter (\<lambda>(d, f). placed E fld d f) (walk_files ws))"
proof (induction ws arbitrary: st)
  case Nil
  show ?case by (simp add: walk_files_def)
next
  case (Cons w ws)
  obtain d fs where w: "w = (d, fs)" by (cases w)
  have wf: "walk_files ((d, fs) # ws) = map (Pair d) fs @ walk_files ws"
    by (simp add: walk_files_def)
  show ?case
    using Cons.IH [of "scan_files E fld d st fs"] scan_files_counted [of E fld d st fs]
    by (simp add: w wf comp_def)
qed

lemma sample_recognised:
  "recognised ''/photos'' raw_photo" "recognised ''/photos'' plain_photo"
  "\<not> recognised ''/photos'' notes_file"
  by (simp_all add: recognised_def sample_names sample_suffixes sample_exts)

lemma sample_placed:
  "placed sample_env ''/photos'' ''/photos'' raw_photo"
  "\<not> placed sample_env ''/photos'' ''/photos'' plain_photo"
  "\<not> placed sample_env ''/photos'' ''/photos'' notes_file"
  by (simp_all add: placed_def sample_recognised sample_names sample_file_gps sample_relative)

text \<open>
  C10. After any part of the scan and at its end, \<open>total = with_gps + skipped\<close> and
  \<open>with_gps\<close> is the number of placemarks: the relation holds at the start and every
  file, every directory and every walk keeps it. A file with a recognised extension adds
  one to \<open>total\<close> and one to exactly one of \<open>with_gps\<close> and \<open>skipped\<close>; any other file
  changes nothing. Over the files of a directory and over a whole walk, \<open>total\<close> grows by
  the number of recognised files, \<open>with_gps\<close> and the placemarks by the number of placed
  files, and \<open>skipped\<close> by the number of recognised files that are not placed.
\<close>

theorem scan_counters:
  "counters_ok (scan_walk E fld scan_start ws)
   \<and> (counters_ok st \<longrightarrow> counters_ok (scan_file E fld dirpath st f))
   \<and> (counters_ok st \<longrightarrow> counters_ok (scan_files E fld dirpath st fs))
   \<and> (counters_ok st \<longrightarrow> counters_ok (scan_walk E fld st ws))
   \<and> (lower (path_suffix (path_join dirpath (fname f))) \<in> set IMG_EXTS \<longrightarrow>
        total (scan_file E fld dirpath st f) = total st + 1
        \<and> (with_gps (scan_file E fld dirpath st f) = with_gps st + 1
              \<and> skipped (scan_file E fld dirpath st f) = skipped st
            \<or> with_gps (scan_file E fld dirpath st f) = with_gps st
              \<and> skipped (scan_file E fld dirpath st f) = skipped st + 1))
   \<and> (lower (path_suffix (path_join dirpath (fname f))) \<notin> set IMG_EXTS \<longrightarrow>
        scan_file E fld dirpath st f = st)
   \<and> total (scan_files E fld dirpath st fs)
       = total st + length (filter (recognised dirpath) fs)
   \<and> with_gps (scan_files E fld dirpath st fs)
       = with_gps st + length (filter (placed E fld dirpath) fs)
   \<and> skipped (scan_files E fld dirpath st fs)
       = skipped st
         + length (filter (\<lambda>f. recognised dirpath f \<and> \<not> placed E fld dirpath f) fs)
   \<and> length (placemarks (scan_files E fld dirpath st fs))
       = length (placemarks st) + length (filter (placed E fld dirpath) fs)
   \<and> total (scan_walk E fld st ws)
       = total st + length (filter (\<lambda>(d, f). recognised d f) (walk_files ws))
   \<and> with_gps (scan_walk E fld st ws)
       = with_gps st + length (filter (\<lambda>(d, f). placed E fld d f) (walk_files ws))
   \<and> skipped (scan_walk E fld st ws)
       = skipped st
         + length (filter (\<lambda>(d, f). recognised d f \<and> \<not> placed E fld d f) (walk_files ws))
   \<and> length (placemarks (scan_walk E fld st ws))
       = length (placemarks st)
         + length (filter (\<lambda>(d, f). placed E fld d f) (walk_files ws))"
proof -
  have inv: "counters_ok (scan_walk E fld scan_start ws)
   \<and> (counters_ok st \<longrightarrow> counters_ok (scan_file E fld dirpath st f))
   \<and> (counters_ok st \<longrightarrow> counters_ok (scan_files E fld dirpath st fs))
   \<and> (counters_ok st \<longrightarrow> counters_ok (scan_walk E fld st ws))
   \<and> (lower (path_suffix (path_join dirpath (fname f))) \<in> set IMG_EXTS \<longrightarrow>
        total (scan_file E fld dirpath st f) = total st + 1
        \<and> (with_gps (scan_file E fld dirpath st f) = with_gps st + 1
              \<and> skipped (scan_file E fld dirpath st f) = skipped st
            \<or> with_gps (scan_file E fld dirpath st f) = with_gps st
              \<and> skipped (scan_file E fld dirpath st f) = skipped st + 1))
   \<and> (lower (path_suffix (path_join dirpath (fname f))) \<notin> set IMG_EXTS \<longrightarrow>
        scan_file E fld dirpath st f = st)"
    using counters_ok_scan_walk [OF counters_ok_start, of E fld ws]
      counters_ok_scan_file [of st E fld dirpath f]
      counters_ok_scan_files [of st E fld dirpath fs]
      counters_ok_scan_walk [of st E fld ws]
      scan_file_counts [of dirpath f E fld st]
      scan_file_other [of dirpath f E fld st]
    by blast
  from inv scan_files_counted [of E fld dirpath st fs] scan_walk_counted [of E fld st ws]
  show ?thesis
    by (elim conjE, intro conjI) assumption+
qed

theorem scan_counters_witness:
  "counters_ok scan_start
   \<and> counters_ok (scan_file sample_env ''/photos'' ''/photos'' scan_start raw_photo)
   \<and> counters_ok (scan_files sample_env ''/photos'' ''/photos'' scan_start [raw_photo, plain_photo])
   \<and> counters_ok (scan_walk sample_env ''/photos'' scan_start [(''/photos'', [raw_photo])])
   \<and> lower (path_suffix (path_join ''/photos'' (fname raw_photo))) \<in> set IMG_EXTS
   \<and> scan_file sample_env ''/photos'' ''/photos'' scan_start raw_photo
       = \<lparr>placemarks = [\<lparr>name = ''b.JPG'', lat = 10.5, lon = - 20.25, alt = Some (- 100),
                          desc = ''b.JPG''\<rparr>],
          total = 1, with_gps = 1, skipped = 0, warnings = []\<rparr>
   \<and> lower (path_suffix (path_join ''/photos'' (fname notes_file))) \<notin> set IMG_EXTS
   \<and> scan_file sample_env ''/photos'' ''/photos'' scan_start notes_file = scan_start
   \<and> total (scan_walk sample_env ''/photos'' scan_start
        [(''/photos'', [raw_photo, plain_photo, notes_file])]) = 2
   \<and> with_gps (scan_walk sample_env ''/photos'' scan_start
        [(''/photos'', [raw_photo, plain_photo, notes_file])]) = 1
   \<and> skipped (scan_walk sample_env ''/photos'' scan_start
        [(''/photos'', [raw_photo, plain_photo, notes_file])]) = 1
   \<and> length (placemarks (scan_walk sample_env ''/photos'' scan_start
        [(''/photos'', [raw_photo, plain_photo, notes_file])])) = 1"
proof -
  have s: "scan_file sample_env ''/photos'' ''/photos'' scan_start raw_photo
       = \<lparr>placemarks = [\<lparr>name = ''b.JPG'', lat = 10.5, lon = - 20.25, alt = Some (- 100),
                          desc = ''b.JPG''\<rparr>],
          total = 1, with_gps = 1, skipped = 0, warnings = []\<rparr>"
    using scan_file_placemark [of "''/photos''" raw_photo sample_env "10.5" "- 20.25"
        "Some (- 100)" "''/photos''" "''b.JPG''" scan_start]
    by (simp add: sample_names sample_suffixes sample_exts sample_file_gps sample_relative
          scan_start_def)
       (simp add: path_name_def path_join_def)
  note w1 = scan_counters [where E = sample_env and fld = "''/photos''" and dirpath = "''/photos''"
      and st = scan_start and f = raw_photo and fs = "[raw_photo, plain_photo]"
      and ws = "[(''/photos'', [raw_photo])]"]
  note w2 = scan_counters [where E = sample_env and fld = "''/photos''" and dirpath = "''/photos''"
      and st = scan_start and f = notes_file]
  note w3 = scan_counters [where E = sample_env and fld = "''/photos''"
      and st = scan_start and ws = "[(''/photos'', [raw_photo, plain_photo, notes_file])]"]
  have c0: "counters_ok scan_start" by (simp add: counters_ok_def scan_start_def)
  have wf: "walk_files [(''/photos'', [raw_photo, plain_photo, notes_file])]
      = [(''/photos'', raw_photo), (''/photos'', plain_photo), (''/photos'', notes_file)]"
    by (simp add: walk_files_def)
  have counts: "total (scan_walk sample_env ''/photos'' scan_start
        [(''/photos'', [raw_photo, plain_photo, notes_file])]) = 2
   \<and> with_gps (scan_walk sample_env ''/photos'' scan_start
        [(''/photos'', [raw_photo, plain_photo, notes_file])]) = 1
   \<and> skipped (scan_walk sample_env ''/photos'' scan_start
        [(''/photos'', [raw_photo, plain_photo, notes_file])]) = 1
   \<and> length (placemarks (scan_walk sample_env ''/photos'' scan_start
        [(''/photos'', [raw_photo, plain_photo, notes_file])])) = 1"
    using w3 by (simp only: wf) (simp add: sample_recognised sample_placed scan_start_def)
  have first: "counters_ok scan_start
   \<and> counters_ok (scan_file sample_env ''/photos'' ''/photos'' scan_start raw_photo)
   \<and> counters_ok (scan_files sample_env ''/photos'' ''/photos'' scan_start [raw_photo, plain_photo])
   \<and> counters_ok (scan_walk sample_env ''/photos'' scan_start [(''/photos'', [raw_photo])])
   \<and> lower (path_suffix (path_join ''/photos'' (fname raw_photo))) \<in> set IMG_EXTS
   \<and> lower (path_suffix (path_join ''/photos'' (fname notes_file))) \<notin> set IMG_EXTS
   \<and> scan_file sample_env ''/photos'' ''/photos'' scan_start notes_file = scan_start"
    using w1 w2 c0 by (simp add: sample_names sample_suffixes sample_exts)
  show ?thesis
    using first s counts by blast
qed

end
